theory Spec2Isabelle
  imports Complex_Main "HOL-Library.Log_Nat" "HOL-Library.Word"
begin

unbundle bit_operations_syntax

section \<open>Strings and formatting\<close>

text \<open>
  Go strings are byte sequences; they are modelled as \<open>string\<close> (a list of 8-bit
  characters). \<open>Itoa\<close> is what the verb \<open>%d\<close> of \<open>fmt.Sprintf\<close> prints for an
  \<open>int\<close>: a minus sign for negative values and the decimal digits without padding.
\<close>

definition digit_char :: "nat \<Rightarrow> char" where
  "digit_char n = ''0123456789'' ! n"

fun nat_digits :: "nat \<Rightarrow> string" where
  "nat_digits n =
     (if n < 10 then [digit_char n] else nat_digits (n div 10) @ [digit_char (n mod 10)])"

declare nat_digits.simps [simp del]

definition Itoa :: "int \<Rightarrow> string" where
  "Itoa i = (if i < 0 then CHR ''-'' # nat_digits (nat (- i)) else nat_digits (nat i))"

text \<open>\<open>strings.Contains s sub\<close>: \<open>sub\<close> occurs in \<open>s\<close> as a contiguous run of bytes.\<close>

fun has_prefix :: "string \<Rightarrow> string \<Rightarrow> bool" where
  "has_prefix s [] = True"
| "has_prefix [] (p # ps) = False"
| "has_prefix (c # cs) (p # ps) = (c = p \<and> has_prefix cs ps)"

fun Contains :: "string \<Rightarrow> string \<Rightarrow> bool" where
  "Contains [] sub = (sub = [])"
| "Contains (c # cs) sub = (has_prefix (c # cs) sub \<or> Contains cs sub)"


section \<open>Go's float64 arithmetic and the time package\<close>

text \<open>
  A finite float64 is a rational number. \<open>round_float64\<close> is IEEE 754 rounding to the
  nearest value with a 53-bit significand, ties to the even significand; every float64
  operation of the program (conversion from an integer, \<open>+\<close>, \<open>/\<close>) is the exact
  operation followed by this rounding. The exponent range is not bounded here: the
  magnitudes that a \<open>time.Duration\<close> produces (between \<open>2.7e-13\<close> and \<open>2.6e6\<close> hours) are
  far from overflow and from the subnormal range.
\<close>

type_synonym float64 = rat

definition rne :: "rat \<Rightarrow> int" where
  "rne x =
     (let f = \<lfloor>x\<rfloor>; d = x - of_int f
      in if d < 1 / 2 then f else if 1 / 2 < d then f + 1 else if even f then f else f + 1)"

definition fexp :: "rat \<Rightarrow> int" where
  "fexp x =
     (let a = \<bar>x\<bar>
      in if 1 \<le> a then bitlen \<lfloor>a\<rfloor> - 1
         else (let k = bitlen \<lfloor>1 / a\<rfloor> - 1 in if a * 2 powi k = 1 then - k else - k - 1))"

definition round_float64 :: "rat \<Rightarrow> float64" where
  "round_float64 x =
     (if x = 0 then 0 else (let q = 2 powi (fexp x - 52) in of_int (rne (x / q)) * q))"

definition float64_of_int :: "int \<Rightarrow> float64" where
  "float64_of_int i = round_float64 (of_int i)"

definition fadd :: "float64 \<Rightarrow> float64 \<Rightarrow> float64" where
  "fadd x y = round_float64 (x + y)"

definition fdiv :: "float64 \<Rightarrow> float64 \<Rightarrow> float64" where
  "fdiv x y = round_float64 (x / y)"

text \<open>The conversion \<open>int(f)\<close> of a float64 discards the fraction (truncation toward zero).\<close>

definition int_of_float64 :: "float64 \<Rightarrow> int" where
  "int_of_float64 x = (if x < 0 then - \<lfloor>- x\<rfloor> else \<lfloor>x\<rfloor>)"

text \<open>Go's integer \<open>/\<close> and \<open>%\<close> truncate toward zero; the remainder has the dividend's sign.\<close>

definition tdiv :: "int \<Rightarrow> int \<Rightarrow> int" where
  "tdiv a b = sgn a * sgn b * (\<bar>a\<bar> div \<bar>b\<bar>)"

definition tmod :: "int \<Rightarrow> int \<Rightarrow> int" where
  "tmod a b = a - b * tdiv a b"

text \<open>
  An instant (\<open>time.Time\<close>) is its wall-clock reading in nanoseconds since the Unix epoch; a
  \<open>time.Duration\<close> is a signed 64-bit count of nanoseconds. \<open>t.Sub(u)\<close> saturates at the
  largest and smallest Duration, \<open>t.After(u)\<close> is the strict order of instants, and
  \<open>d.Hours()\<close> is \<open>float64(d / Hour) + float64(d % Hour) / (60 * 60 * 1e9)\<close>.
\<close>

type_synonym time = int
type_synonym Duration = int

definition maxDuration :: Duration where
  "maxDuration = 2 ^ 63 - 1"

definition minDuration :: Duration where
  "minDuration = - (2 ^ 63)"

definition Hour :: Duration where
  "Hour = 3600000000000"

definition Sub :: "time \<Rightarrow> time \<Rightarrow> Duration" where
  "Sub t u =
     (let d = t - u
      in if d < minDuration then minDuration else if maxDuration < d then maxDuration else d)"

definition After :: "time \<Rightarrow> time \<Rightarrow> bool" where
  "After t u = (u < t)"

definition Hours :: "Duration \<Rightarrow> float64" where
  "Hours d =
     (let hour = tdiv d Hour; nsec = tmod d Hour
      in fadd (float64_of_int hour) (fdiv (float64_of_int nsec) 3600000000000))"


section \<open>pkg/utils/cert.go\<close>

record CertificateInfo =
  Subject :: string
  Issuer :: string
  SerialNumber :: string
  NotBefore :: time
  NotAfter :: time
  IsExpired :: bool
  DaysUntilExp :: int
  DNSNames :: "string list"
  IPAddresses :: "string list"
  KeyUsage :: "string list"
  IsCA :: bool

text \<open>
  The standard library's part. A \<open>pem.Block\<close> has a type and the decoded bytes; an
  \<open>x509.Certificate\<close> is kept with the fields the program reads, the names and the serial
  number already rendered by their \<open>String()\<close> methods. The functions \<open>strings.TrimSpace\<close>,
  \<open>pem.Decode\<close>, \<open>x509.ParseCertificate\<close>, \<open>time.Now\<close> and \<open>Time.Format("2006-01-02")\<close> are
  parameters of the model, collected in the record \<open>stdlib\<close>. \<open>pem.Decode\<close> returns a block
  and the rest of its input, a proper suffix of it; the parameter \<open>pem_find\<close> gives the
  block and the number of bytes consumed after the first one, and \<open>pem_Decode\<close> rebuilds
  the rest. The instant read by \<open>time.Now()\<close> is one value for the whole call.
\<close>

record Block =
  block_Type :: string
  block_Bytes :: string

record Certificate =
  cert_Subject :: string
  cert_Issuer :: string
  cert_SerialNumber :: string
  cert_NotBefore :: time
  cert_NotAfter :: time
  cert_DNSNames :: "string list"
  cert_IPAddresses :: "string list"
  cert_KeyUsage :: "64 word"
  cert_IsCA :: bool

record stdlib =
  TrimSpace :: "string \<Rightarrow> string"
  pem_find :: "string \<Rightarrow> (Block \<times> nat) option"
  x509_ParseCertificate :: "string \<Rightarrow> string + Certificate"
  time_Now :: time
  Format_date :: "time \<Rightarrow> string"

definition pem_Decode :: "stdlib \<Rightarrow> string \<Rightarrow> (Block \<times> string) option" where
  "pem_Decode L data =
     (if data = [] then None
      else (case pem_find L data of
              None \<Rightarrow> None
            | Some (block, n) \<Rightarrow> Some (block, drop (Suc n) data)))"

datatype error =
    FailedToDecodePEM
  | NotACertificate string
  | FailedToParseCertificate string
  | NoValidCertificates
  | NoClusterCA
  | FailedToParseClusterCA
  | ApiError string
  | FailedToGetPod string string

definition KeyUsageDigitalSignature :: "64 word" where "KeyUsageDigitalSignature = 1"
definition KeyUsageKeyEncipherment :: "64 word" where "KeyUsageKeyEncipherment = 4"
definition KeyUsageDataEncipherment :: "64 word" where "KeyUsageDataEncipherment = 8"
definition KeyUsageKeyAgreement :: "64 word" where "KeyUsageKeyAgreement = 16"
definition KeyUsageCertSign :: "64 word" where "KeyUsageCertSign = 32"
definition KeyUsageCRLSign :: "64 word" where "KeyUsageCRLSign = 64"

definition keyUsageLabels :: "64 word \<Rightarrow> string list" where
  "keyUsageLabels ku =
     (if ku AND KeyUsageDigitalSignature \<noteq> 0 then [''Digital Signature''] else []) @
     (if ku AND KeyUsageKeyEncipherment \<noteq> 0 then [''Key Encipherment''] else []) @
     (if ku AND KeyUsageDataEncipherment \<noteq> 0 then [''Data Encipherment''] else []) @
     (if ku AND KeyUsageKeyAgreement \<noteq> 0 then [''Key Agreement''] else []) @
     (if ku AND KeyUsageCertSign \<noteq> 0 then [''Certificate Sign''] else []) @
     (if ku AND KeyUsageCRLSign \<noteq> 0 then [''CRL Sign''] else [])"

text \<open>
  The record built at the end of \<open>ParseCertificate\<close> and, with the same statements, inside
  the loop of \<open>ParseCertificateBundle\<close>.
\<close>

definition certInfo :: "time \<Rightarrow> Certificate \<Rightarrow> CertificateInfo" where
  "certInfo now cert =
     (let daysUntilExp = int_of_float64 (fdiv (Hours (Sub (cert_NotAfter cert) now)) 24);
          isExpired = After now (cert_NotAfter cert)
      in \<lparr> Subject = cert_Subject cert,
           Issuer = cert_Issuer cert,
           SerialNumber = cert_SerialNumber cert,
           NotBefore = cert_NotBefore cert,
           NotAfter = cert_NotAfter cert,
           IsExpired = isExpired,
           DaysUntilExp = daysUntilExp,
           DNSNames = cert_DNSNames cert,
           IPAddresses = cert_IPAddresses cert,
           KeyUsage = keyUsageLabels (cert_KeyUsage cert),
           IsCA = cert_IsCA cert \<rparr>)"

definition ParseCertificate :: "stdlib \<Rightarrow> string \<Rightarrow> error + CertificateInfo" where
  "ParseCertificate L certPEM =
     (case pem_Decode L (TrimSpace L certPEM) of
        None \<Rightarrow> Inl FailedToDecodePEM
      | Some (block, rest) \<Rightarrow>
          if block_Type block \<noteq> ''CERTIFICATE'' then Inl (NotACertificate (block_Type block))
          else (case x509_ParseCertificate L (block_Bytes block) of
                  Inl err \<Rightarrow> Inl (FailedToParseCertificate err)
                | Inr cert \<Rightarrow> Inr (certInfo (time_Now L) cert)))"

text \<open>
  The \<open>for\<close> loop of \<open>ParseCertificateBundle\<close>, with its two exits (no block; nothing left)
  and its \<open>continue\<close> after a certificate that does not parse.
\<close>

function bundle_loop :: "stdlib \<Rightarrow> string \<Rightarrow> CertificateInfo list \<Rightarrow> CertificateInfo list" where
  "bundle_loop L remaining certificates =
     (case pem_Decode L remaining of
        None \<Rightarrow> certificates
      | Some (block, rest) \<Rightarrow>
          if block_Type block = ''CERTIFICATE'' then
            (case x509_ParseCertificate L (block_Bytes block) of
               Inl err \<Rightarrow> bundle_loop L rest certificates
             | Inr cert \<Rightarrow>
                 if rest = [] then certificates @ [certInfo (time_Now L) cert]
                 else bundle_loop L rest (certificates @ [certInfo (time_Now L) cert]))
          else if rest = [] then certificates
          else bundle_loop L rest certificates)"
  by pat_completeness auto
termination
  by (relation "measure (\<lambda>(L, remaining, certificates). length remaining)")
     (auto simp: pem_Decode_def split: if_splits option.splits)

declare bundle_loop.simps [simp del]

definition ParseCertificateBundle :: "stdlib \<Rightarrow> string \<Rightarrow> error + CertificateInfo list" where
  "ParseCertificateBundle L certBundle =
     (let certificates = bundle_loop L (TrimSpace L certBundle) []
      in if length certificates = 0 then Inl NoValidCertificates else Inr certificates)"

text \<open>The \<open>for ... range certs\<close> loop of \<open>ValidateCertificateExpiry\<close>, appending to \<open>warnings\<close>.\<close>

fun validate_loop :: "stdlib \<Rightarrow> int \<Rightarrow> CertificateInfo list \<Rightarrow> string list \<Rightarrow> string list" where
  "validate_loop L warningDays [] warnings = warnings"
| "validate_loop L warningDays (cert # certs) warnings =
     (if IsExpired cert then
        validate_loop L warningDays certs
          (warnings @ [''Certificate '' @ [CHR 0x27] @ Subject cert @ [CHR 0x27] @
                       '' has EXPIRED on '' @ Format_date L (NotAfter cert)])
      else if DaysUntilExp cert \<le> warningDays then
        validate_loop L warningDays certs
          (warnings @ [''Certificate '' @ [CHR 0x27] @ Subject cert @ [CHR 0x27] @
                       '' expires in '' @ Itoa (DaysUntilExp cert) @ '' days ('' @
                       Format_date L (NotAfter cert) @ '')''])
      else validate_loop L warningDays certs warnings)"

definition ValidateCertificateExpiry :: "stdlib \<Rightarrow> CertificateInfo list \<Rightarrow> int \<Rightarrow> string list" where
  "ValidateCertificateExpiry L certs warningDays = validate_loop L warningDays certs []"


section \<open>internal/k8s/certificates.go\<close>

record CertificateSource =
  Type :: string
  Name :: string
  Namespace :: string
  Key :: string
  Certificates :: "CertificateInfo list"
  Error :: string

text \<open>\<open>err.Error()\<close>: the message of an error value.\<close>

fun Error_string :: "error \<Rightarrow> string" where
  "Error_string FailedToDecodePEM = ''failed to decode PEM block''"
| "Error_string (NotACertificate t) = ''not a certificate, found: '' @ t"
| "Error_string (FailedToParseCertificate e) = ''failed to parse certificate: '' @ e"
| "Error_string NoValidCertificates = ''no valid certificates found in bundle''"
| "Error_string NoClusterCA = ''no cluster CA certificate''"
| "Error_string FailedToParseClusterCA = ''failed to parse cluster CA certificate''"
| "Error_string (ApiError msg) = msg"
| "Error_string (FailedToGetPod podName msg) = ''failed to get pod '' @ podName @ '': '' @ msg"

text \<open>
  The cluster objects the program reads, and the client calls that fetch them
  (\<open>clientset.CoreV1().Pods(ns).Get\<close> and its siblings), which answer with the object or
  with the message of an error. Only the fields the program reads are kept: the volumes
  of a pod with their secret and config-map references, the data of a secret, the plain
  and the binary data of a config map.
\<close>

record Volume =
  volume_Secret :: "string option"
  volume_ConfigMap :: "string option"

record Pod =
  pod_Volumes :: "Volume list"

record Secret =
  secret_Data :: "string \<rightharpoonup> string"

record ConfigMap =
  configMap_Data :: "string \<rightharpoonup> string"
  configMap_BinaryData :: "string \<rightharpoonup> string"

record Clientset =
  Pods_Get :: "string \<Rightarrow> string \<Rightarrow> string + Pod"
  Secrets_Get :: "string \<Rightarrow> string \<Rightarrow> string + Secret"
  ConfigMaps_Get :: "string \<Rightarrow> string \<Rightarrow> string + ConfigMap"

record KubeConfigEKSDetails =
  ClusterName :: string
  ClusterEndpoint :: string
  ClusterCA :: string
  Region :: string
  RoleARN :: string

definition empty_source :: CertificateSource where
  "empty_source =
     \<lparr> Type = [], Name = [], Namespace = [], Key = [], Certificates = [], Error = [] \<rparr>"

text \<open>\<open>cert.Subject = fmt.Sprintf("%s (from %s)", cert.Subject, key)\<close>\<close>

definition from_key :: "string \<Rightarrow> CertificateInfo \<Rightarrow> CertificateInfo" where
  "from_key key cert = cert\<lparr>Subject := Subject cert @ '' (from '' @ key @ '')''\<rparr>"

text \<open>
  What both extraction loops do with the string found under a key: the single
  certificate if \<open>ParseCertificate\<close> succeeds (the \<open>continue\<close>), else the certificates of
  the bundle if \<open>ParseCertificateBundle\<close> succeeds, else nothing.
\<close>

definition parse_under_key :: "stdlib \<Rightarrow> string \<Rightarrow> string \<Rightarrow> CertificateInfo list" where
  "parse_under_key L key certString =
     (case ParseCertificate L certString of
        Inr cert \<Rightarrow> [from_key key cert]
      | Inl err \<Rightarrow>
          (case ParseCertificateBundle L certString of
             Inr certs \<Rightarrow> map (from_key key) certs
           | Inl err' \<Rightarrow> []))"

definition secret_certKeys :: "string list" where
  "secret_certKeys =
     [''tls.crt'', ''tls.cert'', ''cert.pem'', ''certificate.pem'', ''ca.crt'', ''ca.pem'',
      ''client.crt'', ''server.crt'', ''cert'', ''certificate'', ''ca-bundle.crt'',
      ''ca-bundle.pem'', ''root-ca.pem'', ''intermediate-ca.pem'']"

fun secret_loop ::
  "stdlib \<Rightarrow> (string \<rightharpoonup> string) \<Rightarrow> string list \<Rightarrow> CertificateInfo list \<Rightarrow> CertificateInfo list"
where
  "secret_loop L data [] allCerts = allCerts"
| "secret_loop L data (key # keys) allCerts =
     (case data key of
        Some certData \<Rightarrow> secret_loop L data keys (allCerts @ parse_under_key L key certData)
      | None \<Rightarrow> secret_loop L data keys allCerts)"

definition ExtractCertificatesFromSecret ::
  "stdlib \<Rightarrow> Clientset \<Rightarrow> string \<Rightarrow> string \<Rightarrow> CertificateSource \<times> error option"
where
  "ExtractCertificatesFromSecret L clientset namespace secretName =
     (case Secrets_Get clientset namespace secretName of
        Inl err \<Rightarrow>
          (empty_source\<lparr>Type := ''secret'', Name := secretName, Namespace := namespace,
                        Error := ''Failed to get secret: '' @ err\<rparr>,
           Some (ApiError err))
      | Inr secret \<Rightarrow>
          (empty_source\<lparr>Type := ''secret'', Name := secretName, Namespace := namespace,
                        Certificates := secret_loop L (secret_Data secret) secret_certKeys []\<rparr>,
           None))"

definition configMap_certKeys :: "string list" where
  "configMap_certKeys =
     [''ca.crt'', ''ca.pem'', ''ca-bundle.crt'', ''ca-bundle.pem'', ''root-ca.pem'',
      ''intermediate-ca.pem'', ''tls.crt'', ''tls.cert'', ''cert.pem'', ''certificate.pem'',
      ''client.crt'', ''server.crt'', ''cert'', ''certificate'']"

fun configMap_loop ::
  "stdlib \<Rightarrow> ConfigMap \<Rightarrow> string list \<Rightarrow> CertificateInfo list \<Rightarrow> CertificateInfo list"
where
  "configMap_loop L configMap [] allCerts = allCerts"
| "configMap_loop L configMap (key # keys) allCerts =
     (case configMap_Data configMap key of
        Some certData \<Rightarrow>
          configMap_loop L configMap keys (allCerts @ parse_under_key L key certData)
      | None \<Rightarrow>
          (case configMap_BinaryData configMap key of
             Some certData \<Rightarrow>
               configMap_loop L configMap keys (allCerts @ parse_under_key L key certData)
           | None \<Rightarrow> configMap_loop L configMap keys allCerts))"

definition ExtractCertificatesFromConfigMap ::
  "stdlib \<Rightarrow> Clientset \<Rightarrow> string \<Rightarrow> string \<Rightarrow> CertificateSource \<times> error option"
where
  "ExtractCertificatesFromConfigMap L clientset namespace configMapName =
     (case ConfigMaps_Get clientset namespace configMapName of
        Inl err \<Rightarrow>
          (empty_source\<lparr>Type := ''configmap'', Name := configMapName, Namespace := namespace,
                        Error := ''Failed to get configmap: '' @ err\<rparr>,
           Some (ApiError err))
      | Inr configMap \<Rightarrow>
          (empty_source\<lparr>Type := ''configmap'', Name := configMapName, Namespace := namespace,
                        Certificates := configMap_loop L configMap configMap_certKeys []\<rparr>,
           None))"

definition cluster_ca_subject :: "CertificateInfo \<Rightarrow> CertificateInfo" where
  "cluster_ca_subject cert = cert\<lparr>Subject := Subject cert @ '' (Kubernetes Cluster CA)''\<rparr>"

definition GetClusterCACertificateInfo ::
  "stdlib \<Rightarrow> string \<Rightarrow> CertificateSource \<times> error option"
where
  "GetClusterCACertificateInfo L clusterCA =
     (let source = empty_source\<lparr>Type := ''cluster-ca'', Name := ''kubernetes-cluster-ca''\<rparr>
      in if clusterCA = [] then
           (source\<lparr>Error := ''No cluster CA certificate available''\<rparr>, Some NoClusterCA)
         else
           (case ParseCertificate L clusterCA of
              Inr cert \<Rightarrow> (source\<lparr>Certificates := [cluster_ca_subject cert]\<rparr>, None)
            | Inl err \<Rightarrow>
                (case ParseCertificateBundle L clusterCA of
                   Inr certs \<Rightarrow> (source\<lparr>Certificates := map cluster_ca_subject certs\<rparr>, None)
                 | Inl err' \<Rightarrow>
                     (source\<lparr>Error := ''Failed to parse cluster CA certificate''\<rparr>,
                      Some FailedToParseClusterCA))))"

text \<open>
  The loop of \<open>AnalyzePodCertificates\<close> over the volumes of the pod. A volume is looked at
  twice, once for its secret reference and once for its config-map reference.
\<close>

definition secret_entry ::
  "stdlib \<Rightarrow> Clientset \<Rightarrow> string \<Rightarrow> string \<Rightarrow> CertificateSource"
where
  "secret_entry L clientset namespace secretName =
     (case ExtractCertificatesFromSecret L clientset namespace secretName of
        (source, None) \<Rightarrow> source
      | (source, Some err) \<Rightarrow>
          empty_source\<lparr>Type := ''secret'', Name := secretName, Namespace := namespace,
                       Error := Error_string err\<rparr>)"

definition configMap_entry ::
  "stdlib \<Rightarrow> Clientset \<Rightarrow> string \<Rightarrow> string \<Rightarrow> CertificateSource"
where
  "configMap_entry L clientset namespace configMapName =
     (case ExtractCertificatesFromConfigMap L clientset namespace configMapName of
        (source, None) \<Rightarrow> source
      | (source, Some err) \<Rightarrow>
          empty_source\<lparr>Type := ''configmap'', Name := configMapName, Namespace := namespace,
                       Error := Error_string err\<rparr>)"

fun volumes_loop ::
  "stdlib \<Rightarrow> Clientset \<Rightarrow> string \<Rightarrow> Volume list \<Rightarrow> (string \<rightharpoonup> CertificateSource) \<Rightarrow>
   (string \<rightharpoonup> CertificateSource)"
where
  "volumes_loop L clientset namespace [] certSources = certSources"
| "volumes_loop L clientset namespace (volume # volumes) certSources =
     (let certSources1 =
            (case volume_Secret volume of
               Some secretName \<Rightarrow>
                 certSources(''secret-'' @ secretName \<mapsto>
                             secret_entry L clientset namespace secretName)
             | None \<Rightarrow> certSources);
          certSources2 =
            (case volume_ConfigMap volume of
               Some configMapName \<Rightarrow>
                 certSources1(''configmap-'' @ configMapName \<mapsto>
                              configMap_entry L clientset namespace configMapName)
             | None \<Rightarrow> certSources1)
      in volumes_loop L clientset namespace volumes certSources2)"

definition AnalyzePodCertificates ::
  "stdlib \<Rightarrow> Clientset \<Rightarrow> KubeConfigEKSDetails \<Rightarrow> string \<Rightarrow> string \<Rightarrow>
   error + (string \<rightharpoonup> CertificateSource)"
where
  "AnalyzePodCertificates L clientset eksDetails namespace podName =
     (case Pods_Get clientset namespace podName of
        Inl err \<Rightarrow> Inl (FailedToGetPod podName err)
      | Inr pod \<Rightarrow>
          (let certSources =
                 (case GetClusterCACertificateInfo L (ClusterCA eksDetails) of
                    (clusterCAInfo, None) \<Rightarrow> Map.empty(''cluster-ca'' \<mapsto> clusterCAInfo)
                  | (clusterCAInfo, Some err) \<Rightarrow> Map.empty)
           in Inr (volumes_loop L clientset namespace (pod_Volumes pod) certSources)))"


section \<open>internal/handlers/cluster\_ca.go\<close>


text \<open>
  The first loop of \<open>getExpiryStatusSummary\<close> returns from inside the loop; \<open>None\<close> is the
  loop running to its end. The second loop keeps the smallest \<open>DaysUntilExp\<close>.
\<close>

fun status_scan :: "CertificateInfo list \<Rightarrow> int \<Rightarrow> string option" where
  "status_scan [] warningDays = None"
| "status_scan (cert # certs) warningDays =
     (if IsExpired cert then Some ''EXPIRED''
      else if DaysUntilExp cert \<le> warningDays
      then Some (''EXPIRES SOON ('' @ Itoa (DaysUntilExp cert) @ '' days)'')
      else status_scan certs warningDays)"

fun minDays_loop :: "CertificateInfo list \<Rightarrow> int \<Rightarrow> int" where
  "minDays_loop [] minDays = minDays"
| "minDays_loop (cert # certs) minDays =
     (if DaysUntilExp cert < minDays then minDays_loop certs (DaysUntilExp cert)
      else minDays_loop certs minDays)"

definition getExpiryStatusSummary :: "CertificateInfo list \<Rightarrow> int \<Rightarrow> string" where
  "getExpiryStatusSummary certs warningDays =
     (case certs of
        [] \<Rightarrow> ''No certificates found''
      | cert0 # rest \<Rightarrow>
          (case status_scan certs warningDays of
             Some summary \<Rightarrow> summary
           | None \<Rightarrow>
               ''VALID ('' @ Itoa (minDays_loop certs (DaysUntilExp cert0)) @
               '' days remaining)''))"


section \<open>internal/auth/aws.go\<close>

text \<open>
  \<open>base64.RawURLEncoding.EncodeToString\<close>: three bytes become four characters of the
  URL-safe alphabet, and the one or two bytes left at the end become two or three
  characters, with no padding.
\<close>

definition encodeURL :: string where
  "encodeURL = ''ABCDEFGHIJKLMNOPQRSTUVWXYZabcdefghijklmnopqrstuvwxyz0123456789-_''"

definition sextet :: "nat \<Rightarrow> char" where
  "sextet n = encodeURL ! n"

fun RawURLEncoding :: "string \<Rightarrow> string" where
  "RawURLEncoding (a # b # c # rest) =
     [sextet (of_char a div 4),
      sextet (of_char a mod 4 * 16 + of_char b div 16),
      sextet (of_char b mod 16 * 4 + of_char c div 64),
      sextet (of_char c mod 64)] @ RawURLEncoding rest"
| "RawURLEncoding [a, b] =
     [sextet (of_char a div 4),
      sextet (of_char a mod 4 * 16 + of_char b div 16),
      sextet (of_char b mod 16 * 4)]"
| "RawURLEncoding [a] =
     [sextet (of_char a div 4),
      sextet (of_char a mod 4 * 16)]"
| "RawURLEncoding [] = []"

text \<open>
  The configuration, the operating system and the AWS SDK. The credentials section of the
  application's configuration has three strings. What the program asks of the outside
  world are parameters, collected in the record \<open>world\<close>: the process environment, the run
  of the helper command with its arguments and environment (its standard output, or the
  message of the error), the reading of the token out of the helper's JSON output, the
  four calls of the SDK, the details read from the kubeconfig file and the construction
  of the cluster client. Each call made is recorded, in order, in a list of calls that
  every function returns beside its result. Writing to the log is left out.
\<close>

record AWS =
  AccessKeyID :: string
  SecretAccessKey :: string
  aws_Region :: string

datatype credentials = DefaultChain | StaticCredentials string string string

record aws_Config =
  awsCfg_Credentials :: credentials
  awsCfg_Region :: string

datatype environment = Inherited "string list" | Rebuilt "string \<rightharpoonup> string"

record rest_Config =
  Host :: string
  BearerToken :: string
  CAData :: string

datatype call =
    CallExec string "string list"
  | CallLoadDefaultConfig
  | CallAssumeRole string
  | CallGetCallerIdentity
  | CallPresignGetCallerIdentity
  | CallNewForConfig

record world =
  os_Environ :: "string list"
  exec_Output :: "string \<Rightarrow> string list \<Rightarrow> environment \<Rightarrow> string + string"
  json_Unmarshal_token :: "string \<Rightarrow> string + string"
  config_LoadDefaultConfig :: "credentials \<Rightarrow> string \<Rightarrow> string + aws_Config"
  sts_AssumeRole :: "aws_Config \<Rightarrow> string \<Rightarrow> string \<Rightarrow> string + string \<times> string \<times> string"
  sts_GetCallerIdentity :: "aws_Config \<Rightarrow> string + string \<times> string \<times> string"
  sts_PresignGetCallerIdentity :: "aws_Config \<Rightarrow> string + string"
  parseKubeConfigForEKS :: "string + KubeConfigEKSDetails"
  kubernetes_NewForConfig :: "rest_Config \<Rightarrow> string + Clientset"

datatype auth_error =
    FailedToLoadAWSConfig string
  | FailedToAssumeRole string string
  | FailedToGetCallerIdentity string
  | FailedToPresign string
  | FailedToExecuteAuthenticator string
  | FailedToParseAuthenticatorOutput string
  | FailedToParseKubeconfig string
  | FailedToGenerateEKSToken auth_error
  | FailedToCreateClientset string

text \<open>
  The first part of \<open>GenerateToken\<close>, up to the presigned URL: the configuration is loaded
  with the static credentials when both keys are configured and with the default chain
  otherwise, the role is assumed when one is given, the caller identity is checked, and
  the request is presigned.
\<close>

definition load_config :: "world \<Rightarrow> AWS \<Rightarrow> (auth_error + aws_Config) \<times> call list" where
  "load_config W cfg =
     (case config_LoadDefaultConfig W
             (if AccessKeyID cfg \<noteq> [] \<and> SecretAccessKey cfg \<noteq> []
              then StaticCredentials (AccessKeyID cfg) (SecretAccessKey cfg) []
              else DefaultChain)
             (aws_Region cfg) of
        Inl err \<Rightarrow> (Inl (FailedToLoadAWSConfig err), [CallLoadDefaultConfig])
      | Inr awsCfg \<Rightarrow> (Inr awsCfg, [CallLoadDefaultConfig]))"

definition assume_role ::
  "world \<Rightarrow> aws_Config \<Rightarrow> string \<Rightarrow> (auth_error + aws_Config) \<times> call list"
where
  "assume_role W awsCfg roleARNToAssume =
     (if roleARNToAssume \<noteq> [] then
        (case sts_AssumeRole W awsCfg roleARNToAssume ''k8s-web-service-session'' of
           Inl err \<Rightarrow>
             (Inl (FailedToAssumeRole roleARNToAssume err), [CallAssumeRole roleARNToAssume])
         | Inr (accessKeyId, secretAccessKey, sessionToken) \<Rightarrow>
             (Inr (awsCfg\<lparr>awsCfg_Credentials :=
                            StaticCredentials accessKeyId secretAccessKey sessionToken\<rparr>),
              [CallAssumeRole roleARNToAssume]))
      else (Inr awsCfg, []))"

definition presign :: "world \<Rightarrow> aws_Config \<Rightarrow> (auth_error + string) \<times> call list" where
  "presign W awsCfg =
     (case sts_GetCallerIdentity W awsCfg of
        Inl err \<Rightarrow> (Inl (FailedToGetCallerIdentity err), [CallGetCallerIdentity])
      | Inr callerIdentity \<Rightarrow>
          (case sts_PresignGetCallerIdentity W awsCfg of
             Inl err \<Rightarrow>
               (Inl (FailedToPresign err), [CallGetCallerIdentity, CallPresignGetCallerIdentity])
           | Inr url \<Rightarrow> (Inr url, [CallGetCallerIdentity, CallPresignGetCallerIdentity])))"

definition presigned_url :: "world \<Rightarrow> AWS \<Rightarrow> string \<Rightarrow> (auth_error + string) \<times> call list" where
  "presigned_url W cfg roleARNToAssume =
     (case load_config W cfg of
        (Inl err, calls) \<Rightarrow> (Inl err, calls)
      | (Inr awsCfg0, calls) \<Rightarrow>
          (case assume_role W awsCfg0 roleARNToAssume of
             (Inl err, calls1) \<Rightarrow> (Inl err, calls @ calls1)
           | (Inr awsCfg, calls1) \<Rightarrow>
               (case presign W awsCfg of
                  (result, calls2) \<Rightarrow> (result, calls @ calls1 @ calls2))))"

text \<open>The second part: the cluster name is added to the URL, and the token is built.\<close>

definition cluster_id_url :: "string \<Rightarrow> string \<Rightarrow> string" where
  "cluster_id_url urlStr clusterName =
     (if \<not> Contains urlStr ''X-K8s-Aws-Id'' then
        (let separator = (if \<not> Contains urlStr ''?'' then ''?'' else ''&'')
         in urlStr @ separator @ ''X-K8s-Aws-Id='' @ clusterName)
      else urlStr)"

definition GenerateToken ::
  "world \<Rightarrow> AWS \<Rightarrow> string \<Rightarrow> string \<Rightarrow> (auth_error + string) \<times> call list"
where
  "GenerateToken W cfg clusterName roleARNToAssume =
     (case presigned_url W cfg roleARNToAssume of
        (Inl err, calls) \<Rightarrow> (Inl err, calls)
      | (Inr urlStr, calls) \<Rightarrow>
          (Inr (''k8s-aws-v1.'' @ RawURLEncoding (cluster_id_url urlStr clusterName)), calls))"

text \<open>
  \<open>GenerateTokenUsingAuthenticator\<close>. \<open>strings.SplitN(env, "=", 2)\<close> has two parts when the
  entry holds an equals sign; such an entry goes into the map, a later one over an earlier.
\<close>

fun env_map :: "string list \<Rightarrow> (string \<rightharpoonup> string) \<Rightarrow> (string \<rightharpoonup> string)" where
  "env_map [] envMap = envMap"
| "env_map (env # envs) envMap =
     (if CHR ''='' \<in> set env
      then env_map envs
             (envMap(takeWhile (\<lambda>c. c \<noteq> CHR ''='') env \<mapsto>
                     tl (dropWhile (\<lambda>c. c \<noteq> CHR ''='') env)))
      else env_map envs envMap)"

definition command_env :: "world \<Rightarrow> AWS \<Rightarrow> environment" where
  "command_env W cfg =
     (if AccessKeyID cfg \<noteq> [] \<and> SecretAccessKey cfg \<noteq> [] then
        (let envMap = env_map (os_Environ W) Map.empty;
             envMap1 = envMap(''AWS_ACCESS_KEY_ID'' \<mapsto> AccessKeyID cfg);
             envMap2 = envMap1(''AWS_SECRET_ACCESS_KEY'' \<mapsto> SecretAccessKey cfg);
             envMap3 = (if aws_Region cfg \<noteq> [] then envMap2(''AWS_REGION'' \<mapsto> aws_Region cfg)
                        else envMap2)
         in Rebuilt envMap3)
      else Inherited (os_Environ W))"

definition GenerateTokenUsingAuthenticator ::
  "world \<Rightarrow> AWS \<Rightarrow> string \<Rightarrow> string \<Rightarrow> (auth_error + string) \<times> call list"
where
  "GenerateTokenUsingAuthenticator W cfg clusterName roleARN =
     (let args = [''token'', ''-i'', clusterName] @
                 (if roleARN \<noteq> [] then [''-r'', roleARN] else [])
      in (case exec_Output W ''aws-iam-authenticator'' args (command_env W cfg) of
            Inl err \<Rightarrow>
              (Inl (FailedToExecuteAuthenticator err), [CallExec ''aws-iam-authenticator'' args])
          | Inr output \<Rightarrow>
              (case json_Unmarshal_token W output of
                 Inl err \<Rightarrow>
                   (Inl (FailedToParseAuthenticatorOutput err),
                    [CallExec ''aws-iam-authenticator'' args])
               | Inr token \<Rightarrow> (Inr token, [CallExec ''aws-iam-authenticator'' args]))))"


section \<open>NewClient of the package k8s\<close>

record Client =
  client_clientset :: Clientset
  client_config :: rest_Config
  client_appConfig :: AWS
  client_eksDetails :: KubeConfigEKSDetails

text \<open>
  The token of \<open>NewClient\<close>: the helper first, and \<open>GenerateToken\<close> when the helper returns
  an error.
\<close>

definition client_token ::
  "world \<Rightarrow> AWS \<Rightarrow> KubeConfigEKSDetails \<Rightarrow> (auth_error + string) \<times> call list"
where
  "client_token W cfg eksDetails =
     (case GenerateTokenUsingAuthenticator W cfg (ClusterName eksDetails) (RoleARN eksDetails) of
        (Inr token, calls) \<Rightarrow> (Inr token, calls)
      | (Inl err, calls) \<Rightarrow>
          (case GenerateToken W cfg (ClusterName eksDetails) (RoleARN eksDetails) of
             (Inr token, calls1) \<Rightarrow> (Inr token, calls @ calls1)
           | (Inl err1, calls1) \<Rightarrow> (Inl (FailedToGenerateEKSToken err1), calls @ calls1)))"

definition NewClient :: "world \<Rightarrow> AWS \<Rightarrow> (auth_error + Client) \<times> call list" where
  "NewClient W cfg =
     (case parseKubeConfigForEKS W of
        Inl err \<Rightarrow> (Inl (FailedToParseKubeconfig err), [])
      | Inr eksDetails \<Rightarrow>
          (case client_token W cfg eksDetails of
             (Inl err, calls) \<Rightarrow> (Inl err, calls)
           | (Inr token, calls) \<Rightarrow>
               (let restConfig = \<lparr> Host = ClusterEndpoint eksDetails,
                                   BearerToken = token,
                                   CAData = ClusterCA eksDetails \<rparr>
                in (case kubernetes_NewForConfig W restConfig of
                      Inl err \<Rightarrow> (Inl (FailedToCreateClientset err), calls @ [CallNewForConfig])
                    | Inr clientset \<Rightarrow>
                        (Inr \<lparr> client_clientset = clientset,
                               client_config = restConfig,
                               client_appConfig = cfg,
                               client_eksDetails = eksDetails \<rparr>,
                         calls @ [CallNewForConfig])))))"


section \<open>Definitions in the words of the specification\<close>

text \<open>
  The warning of one record as the specification words it: one line for an expired
  record, one line for a record that is not expired and has at most \<open>warningDays\<close> days
  left, nothing otherwise.
\<close>

definition warning_of :: "stdlib \<Rightarrow> int \<Rightarrow> CertificateInfo \<Rightarrow> string list" where
  "warning_of L warningDays cert =
     (if IsExpired cert then
        [''Certificate '' @ [CHR 0x27] @ Subject cert @ [CHR 0x27] @ '' has EXPIRED on '' @
         Format_date L (NotAfter cert)]
      else if DaysUntilExp cert \<le> warningDays then
        [''Certificate '' @ [CHR 0x27] @ Subject cert @ [CHR 0x27] @ '' expires in '' @
         Itoa (DaysUntilExp cert) @ '' days ('' @ Format_date L (NotAfter cert) @ '')'']
      else [])"

text \<open>
  The blocks that successive calls of \<open>pem.Decode\<close> find in a text, in input order, and
  the records of those among them that are of type CERTIFICATE and parse.
\<close>

function pem_blocks :: "stdlib \<Rightarrow> string \<Rightarrow> Block list" where
  "pem_blocks L data =
     (case pem_Decode L data of
        None \<Rightarrow> []
      | Some (block, rest) \<Rightarrow> block # pem_blocks L rest)"
  by pat_completeness auto
termination
  by (relation "measure (\<lambda>(L, data). length data)")
     (auto simp: pem_Decode_def split: if_splits option.splits)

declare pem_blocks.simps [simp del]

definition parsed_block :: "stdlib \<Rightarrow> Block \<Rightarrow> CertificateInfo list" where
  "parsed_block L block =
     (if block_Type block = ''CERTIFICATE'' then
        (case x509_ParseCertificate L (block_Bytes block) of
           Inl err \<Rightarrow> []
         | Inr cert \<Rightarrow> [certInfo (time_Now L) cert])
      else [])"

definition parsed_certificates :: "stdlib \<Rightarrow> string \<Rightarrow> CertificateInfo list" where
  "parsed_certificates L data = concat (map (parsed_block L) (pem_blocks L data))"

text \<open>
  The certificates found under a list of candidate keys of one keyed store, key by key.
\<close>

definition certs_under_keys ::
  "stdlib \<Rightarrow> (string \<rightharpoonup> string) \<Rightarrow> string list \<Rightarrow> CertificateInfo list"
where
  "certs_under_keys L store keys =
     concat (map (\<lambda>key. case store key of
                           None \<Rightarrow> []
                         | Some certString \<Rightarrow> parse_under_key L key certString) keys)"


text \<open>
  Reading a token back: the value of a character of the URL-safe alphabet, and the bytes
  that an unpadded text of such characters stands for.
\<close>

fun index_in :: "string \<Rightarrow> char \<Rightarrow> nat option" where
  "index_in [] c = None"
| "index_in (x # xs) c = (if x = c then Some 0 else map_option Suc (index_in xs c))"

fun RawURLDecoding :: "string \<Rightarrow> string option" where
  "RawURLDecoding (p # q # r # s # rest) =
     (case (index_in encodeURL p, index_in encodeURL q, index_in encodeURL r,
            index_in encodeURL s) of
        (Some a, Some b, Some c, Some d) \<Rightarrow>
          map_option
            (\<lambda>bytes. [char_of (a * 4 + b div 16), char_of (b mod 16 * 16 + c div 4),
                       char_of (c mod 4 * 64 + d)] @ bytes)
            (RawURLDecoding rest)
      | _ \<Rightarrow> None)"
| "RawURLDecoding [p, q, r] =
     (case (index_in encodeURL p, index_in encodeURL q, index_in encodeURL r) of
        (Some a, Some b, Some c) \<Rightarrow>
          Some [char_of (a * 4 + b div 16), char_of (b mod 16 * 16 + c div 4)]
      | _ \<Rightarrow> None)"
| "RawURLDecoding [p, q] =
     (case (index_in encodeURL p, index_in encodeURL q) of
        (Some a, Some b) \<Rightarrow> Some [char_of (a * 4 + b div 16)]
      | _ \<Rightarrow> None)"
| "RawURLDecoding [p] = None"
| "RawURLDecoding [] = Some []"

text \<open>The URL that a token carries: the decoding of what follows the prefix.\<close>

definition token_url :: "string \<Rightarrow> string option" where
  "token_url token = RawURLDecoding (drop (length ''k8s-aws-v1.'') token)"

text \<open>How often a list of calls runs the helper, and how often it starts the fallback.\<close>

fun is_helper_call :: "call \<Rightarrow> bool" where
  "is_helper_call (CallExec command args) = True"
| "is_helper_call c = False"

definition helper_runs :: "call list \<Rightarrow> nat" where
  "helper_runs calls = length (filter is_helper_call calls)"

definition fallback_runs :: "call list \<Rightarrow> nat" where
  "fallback_runs calls = length (filter (\<lambda>c. c = CallLoadDefaultConfig) calls)"

text \<open>What a call returned, read at one key: the entry of the map, if the call succeeded.\<close>

definition entry_at :: "string \<Rightarrow> error + (string \<rightharpoonup> CertificateSource) \<Rightarrow>
  error + CertificateSource option" where
  "entry_at key result = map_sum id (\<lambda>certSources. certSources key) result"


section \<open>Inputs of the examples\<close>

text \<open>
  A miniature armour stands for PEM in the examples: a block is written
  \<open>[TYPE|bytes]\<close>, and a text is a sequence of blocks. The bytes \<open>DER:name\<close> are the
  encoding of a certificate with subject \<open>CN=name\<close>; any other bytes do not parse.
\<close>

definition example_find :: "string \<Rightarrow> (Block \<times> nat) option" where
  "example_find data =
     (case data of
        [] \<Rightarrow> None
      | c # r \<Rightarrow>
          (let t = takeWhile (\<lambda>x. x \<noteq> CHR ''|'') r;
               b = takeWhile (\<lambda>x. x \<noteq> CHR '']'') (drop (Suc (length t)) r)
           in if c = CHR ''['' \<and> length t + length b + 2 \<le> length r
              then Some (\<lparr> block_Type = t, block_Bytes = b \<rparr>, length t + length b + 2)
              else None))"

definition example_notAfter :: time where
  "example_notAfter = 1900000000000000000"

definition example_certificate :: "string \<Rightarrow> Certificate" where
  "example_certificate name =
     \<lparr> cert_Subject = ''CN='' @ name,
       cert_Issuer = ''CN=example-ca'',
       cert_SerialNumber = ''4096'',
       cert_NotBefore = 1600000000000000000,
       cert_NotAfter = example_notAfter,
       cert_DNSNames = [],
       cert_IPAddresses = [],
       cert_KeyUsage = 5,
       cert_IsCA = False \<rparr>"

definition example_x509 :: "string \<Rightarrow> string + Certificate" where
  "example_x509 der =
     (if has_prefix der ''DER:'' then Inr (example_certificate (drop 4 der))
      else Inl ''x509: malformed certificate'')"

definition example_lib :: "time \<Rightarrow> stdlib" where
  "example_lib now =
     \<lparr> TrimSpace = (\<lambda>s. s),
       pem_find = example_find,
       x509_ParseCertificate = example_x509,
       time_Now = now,
       Format_date = (\<lambda>t. ''2030-03-17'') \<rparr>"

definition example_now :: time where
  "example_now = 1800000000000000000"

text \<open>
  A cluster with one pod \<open>web\<close> in the namespace \<open>default\<close>, which mounts the secret
  \<open>web-tls\<close> and the config map \<open>trust\<close>. The config map holds the key \<open>ca.crt\<close> in its plain
  data and in its binary data, and \<open>tls.crt\<close> in its binary data only.
\<close>

definition example_secret :: Secret where
  "example_secret = \<lparr> secret_Data = [''tls.crt'' \<mapsto> ''[CERTIFICATE|DER:web]''] \<rparr>"

definition example_configMap :: ConfigMap where
  "example_configMap =
     \<lparr> configMap_Data = [''ca.crt'' \<mapsto> ''[CERTIFICATE|DER:plain]''],
       configMap_BinaryData = [''ca.crt'' \<mapsto> ''[CERTIFICATE|DER:binary]'',
                               ''tls.crt'' \<mapsto> ''[CERTIFICATE|DER:served]''] \<rparr>"

definition example_clientset :: Clientset where
  "example_clientset =
     \<lparr> Pods_Get = (\<lambda>ns name.
         if ns = ''default'' \<and> name = ''web''
         then Inr \<lparr> pod_Volumes = [\<lparr> volume_Secret = Some ''web-tls'', volume_ConfigMap = None \<rparr>,
                                   \<lparr> volume_Secret = None, volume_ConfigMap = Some ''trust'' \<rparr>] \<rparr>
         else Inl ''pods not found''),
       Secrets_Get = (\<lambda>ns name.
         if ns = ''default'' \<and> name = ''web-tls'' then Inr example_secret
         else Inl ''secrets not found''),
       ConfigMaps_Get = (\<lambda>ns name.
         if ns = ''default'' \<and> name = ''trust'' then Inr example_configMap
         else Inl ''configmaps not found'') \<rparr>"

definition example_eksDetails :: "string \<Rightarrow> KubeConfigEKSDetails" where
  "example_eksDetails clusterCA =
     \<lparr> ClusterName = ''demo'',
       ClusterEndpoint = ''https://demo.eks.example'',
       ClusterCA = clusterCA,
       Region = ''eu-west-1'',
       RoleARN = [] \<rparr>"

text \<open>
  An outside world for the token generator: the helper's outcome and the presigned URL are
  given, the helper's output \<open>token=T\<close> stands for the JSON envelope of the token \<open>T\<close>, and
  the other calls succeed.
\<close>

definition example_world :: "string + string \<Rightarrow> string + string \<Rightarrow> world" where
  "example_world helper url =
     \<lparr> os_Environ = [''HOME=/root'', ''AWS_PROFILE=dev''],
       exec_Output = (\<lambda>command args env. helper),
       json_Unmarshal_token =
         (\<lambda>output. if has_prefix output ''token='' then Inr (drop 6 output)
                    else Inl ''invalid character''),
       config_LoadDefaultConfig =
         (\<lambda>creds region. Inr \<lparr> awsCfg_Credentials = creds, awsCfg_Region = region \<rparr>),
       sts_AssumeRole =
         (\<lambda>awsCfg roleARN session. Inr (''ASIAEXAMPLE'', ''secret'', ''session-token'')),
       sts_GetCallerIdentity =
         (\<lambda>awsCfg. Inr (''123456789012'', ''arn:aws:iam::123456789012:user/dev'',
                         ''AIDAEXAMPLE'')),
       sts_PresignGetCallerIdentity = (\<lambda>awsCfg. url),
       parseKubeConfigForEKS = Inr (example_eksDetails ''[CERTIFICATE|DER:cluster]''),
       kubernetes_NewForConfig = (\<lambda>restConfig. Inr example_clientset) \<rparr>"

definition example_url :: string where
  "example_url = ''https://sts.eu-west-1.amazonaws.com/?Action=GetCallerIdentity''"

definition example_cfg :: AWS where
  "example_cfg = \<lparr> AccessKeyID = [], SecretAccessKey = [], aws_Region = ''eu-west-1'' \<rparr>"

definition example_record :: "string \<Rightarrow> bool \<Rightarrow> int \<Rightarrow> CertificateInfo" where
  "example_record name expired days =
     (certInfo example_now (example_certificate name))
       \<lparr> IsExpired := expired, DaysUntilExp := days \<rparr>"


section \<open>The warnings of the expiry evaluator\<close>

lemma validate_loop_append:
  "validate_loop L w certs acc = acc @ concat (map (warning_of L w) certs)"
  by (induction certs arbitrary: acc) (simp_all add: warning_of_def)

text \<open>
  C7. \<open>ValidateCertificateExpiry\<close> returns, in list order, the warning of each record:
  the line "has EXPIRED on" for an expired record, the line "expires in N days" for a record
  that is not expired and has at most \<open>warningDays\<close> days left, and no line for any other
  record.
\<close>

theorem ValidateCertificateExpiry_warnings:
  "ValidateCertificateExpiry L certs warningDays = concat (map (warning_of L warningDays) certs)"
  by (simp add: ValidateCertificateExpiry_def validate_loop_append)


section \<open>The single-certificate parser\<close>

lemmas example_eval = pem_Decode_def example_lib_def example_find_def example_x509_def

text \<open>
  C1. \<open>ParseCertificate\<close> is claimed to succeed only on a text of exactly one block of type
  CERTIFICATE and to return an error on a text of several blocks. On a bundle of two
  certificates it returns the record of the first one: the rest that \<open>pem.Decode\<close> hands
  back is dropped. The callers, which try the bundle parser only after the single parser
  has failed, therefore keep one certificate of such a bundle.
\<close>

theorem ParseCertificate_bundle_first_only:
  "ParseCertificate (example_lib now) ''[CERTIFICATE|DER:root][CERTIFICATE|DER:leaf]'' =
     Inr (certInfo now (example_certificate ''root'')) \<and>
   parse_under_key (example_lib now) ''ca-bundle.crt''
       ''[CERTIFICATE|DER:root][CERTIFICATE|DER:leaf]'' =
     [from_key ''ca-bundle.crt'' (certInfo now (example_certificate ''root''))]"
  by (simp add: parse_under_key_def ParseCertificate_def example_eval)


section \<open>The bundle parser\<close>

lemma pem_Decode_Nil: "pem_Decode L [] = None"
  by (simp add: pem_Decode_def)

lemma parsed_certificates_None:
  "pem_Decode L data = None \<Longrightarrow> parsed_certificates L data = []"
  by (simp add: parsed_certificates_def pem_blocks.simps [of L data])

lemma parsed_certificates_Some:
  "pem_Decode L data = Some (block, rest) \<Longrightarrow>
   parsed_certificates L data = parsed_block L block @ parsed_certificates L rest"
  by (simp add: parsed_certificates_def pem_blocks.simps [of L data])

lemma parsed_certificates_Nil: "parsed_certificates L [] = []"
  by (simp add: parsed_certificates_None pem_Decode_Nil)

lemma bundle_loop_parsed:
  "bundle_loop L remaining certificates = certificates @ parsed_certificates L remaining"
proof (induction L remaining certificates rule: bundle_loop.induct)
  case (1 L remaining certificates)
  show ?case
  proof (cases "pem_Decode L remaining")
    case None
    then show ?thesis
      by (simp add: bundle_loop.simps [of L remaining] parsed_certificates_None)
  next
    case (Some p)
    obtain block rest where p: "p = (block, rest)"
      by (cases p)
    note dec = Some [unfolded p]
    show ?thesis
    proof (cases "block_Type block = ''CERTIFICATE''")
      case False
      then show ?thesis
        using dec "1.IH"(3) [OF dec refl False]
        by (simp add: bundle_loop.simps [of L remaining] parsed_certificates_Some
            parsed_block_def parsed_certificates_Nil)
    next
      case True
      show ?thesis
      proof (cases "x509_ParseCertificate L (block_Bytes block)")
        case (Inl err)
        then show ?thesis
          using dec True "1.IH"(1) [OF dec refl True Inl]
          by (simp add: bundle_loop.simps [of L remaining] parsed_certificates_Some
              parsed_block_def)
      next
        case (Inr cert)
        then show ?thesis
          using dec True "1.IH"(2) [OF dec refl True Inr]
          by (simp add: bundle_loop.simps [of L remaining] parsed_certificates_Some
              parsed_block_def parsed_certificates_Nil)
      qed
    qed
  qed
qed

lemma ParseCertificateBundle_parsed:
  "ParseCertificateBundle L certBundle =
     (if parsed_certificates L (TrimSpace L certBundle) = [] then Inl NoValidCertificates
      else Inr (parsed_certificates L (TrimSpace L certBundle)))"
  by (simp add: ParseCertificateBundle_def bundle_loop_parsed)

lemma bundle_middle_corrupted:
  "ParseCertificateBundle (example_lib now)
     ''[CERTIFICATE|DER:root][CERTIFICATE|junk][CERTIFICATE|DER:leaf]'' =
   Inr [certInfo now (example_certificate ''root''), certInfo now (example_certificate ''leaf'')]"
  by (simp add: ParseCertificateBundle_def bundle_loop.simps example_eval)

lemma bundle_empty: "ParseCertificateBundle (example_lib now) [] = Inl NoValidCertificates"
  by (simp add: ParseCertificateBundle_def bundle_loop.simps example_eval)

lemma bundle_all_invalid:
  "ParseCertificateBundle (example_lib now) ''[CERTIFICATE|junk][PRIVATE KEY|DER:key]'' =
   Inl NoValidCertificates"
  by (simp add: ParseCertificateBundle_def bundle_loop.simps example_eval)

text \<open>
  C6. \<open>ParseCertificateBundle\<close> returns the records of the blocks of type CERTIFICATE that
  parse, in input order, skipping every other block and scanning on; it returns the error
  \<open>NoValidCertificates\<close> exactly when there is no such record. Three certificates with a
  corrupted middle block give the two good records in order; the empty text and a text
  without a valid certificate give the error.
\<close>

theorem ParseCertificateBundle_skips_and_continues:
  "ParseCertificateBundle L certBundle =
     (if parsed_certificates L (TrimSpace L certBundle) = [] then Inl NoValidCertificates
      else Inr (parsed_certificates L (TrimSpace L certBundle))) \<and>
   ParseCertificateBundle (example_lib now)
     ''[CERTIFICATE|DER:root][CERTIFICATE|junk][CERTIFICATE|DER:leaf]'' =
     Inr [certInfo now (example_certificate ''root''),
          certInfo now (example_certificate ''leaf'')] \<and>
   ParseCertificateBundle (example_lib now) [] = Inl NoValidCertificates \<and>
   ParseCertificateBundle (example_lib now) ''[CERTIFICATE|junk][PRIVATE KEY|DER:key]'' =
     Inl NoValidCertificates"
  by (intro conjI)
     (rule ParseCertificateBundle_parsed, rule bundle_middle_corrupted, rule bundle_empty,
      rule bundle_all_invalid)


section \<open>The sources of a pod\<close>

text \<open>
  C2. The map that \<open>AnalyzePodCertificates\<close> returns is claimed to hold an entry under
  \<open>cluster-ca\<close> also when the trust anchor is empty or does not parse. With an empty
  trust anchor, and with one that is not a certificate, the call succeeds and the map has
  no entry under that key: the source that \<open>GetClusterCACertificateInfo\<close> fills with the
  error is stored only when no error is returned, unlike the sources of secrets and
  config maps, which are stored with their error.
\<close>

theorem AnalyzePodCertificates_cluster_ca_omitted:
  "entry_at ''cluster-ca''
     (AnalyzePodCertificates (example_lib now) example_clientset (example_eksDetails [])
        ''default'' ''web'') = Inr None \<and>
   entry_at ''cluster-ca''
     (AnalyzePodCertificates (example_lib now) example_clientset (example_eksDetails ''junk'')
        ''default'' ''web'') = Inr None \<and>
   GetClusterCACertificateInfo (example_lib now) [] =
     (empty_source\<lparr>Type := ''cluster-ca'', Name := ''kubernetes-cluster-ca'',
                    Error := ''No cluster CA certificate available''\<rparr>, Some NoClusterCA)"
  by (simp add: entry_at_def AnalyzePodCertificates_def example_clientset_def
      example_eksDetails_def GetClusterCACertificateInfo_def ParseCertificate_def
      ParseCertificateBundle_def bundle_loop.simps example_eval)

lemma configMap_loop_override:
  "configMap_loop L cm keys acc =
   acc @ certs_under_keys L (configMap_BinaryData cm ++ configMap_Data cm) keys"
  by (induction keys arbitrary: acc)
     (auto simp: certs_under_keys_def map_add_def split: option.splits)

text \<open>
  C10. In \<open>ExtractCertificatesFromConfigMap\<close> the certificates are those found, key by key,
  in the binary data overridden by the plain data: under a key that both maps hold, the
  plain value is parsed and the binary value is not looked at; the binary value is used
  only under a key that the plain data lacks.
\<close>

theorem ExtractCertificatesFromConfigMap_plain_first:
  assumes "ConfigMaps_Get clientset namespace configMapName = Inr configMap"
  shows "Certificates (fst (ExtractCertificatesFromConfigMap L clientset namespace configMapName)) =
         certs_under_keys L (configMap_BinaryData configMap ++ configMap_Data configMap)
           configMap_certKeys"
  using assms
  by (simp add: ExtractCertificatesFromConfigMap_def configMap_loop_override empty_source_def)

theorem ExtractCertificatesFromConfigMap_plain_first_witness:
  "ConfigMaps_Get example_clientset ''default'' ''trust'' = Inr example_configMap \<and>
   Certificates (fst (ExtractCertificatesFromConfigMap (example_lib example_now) example_clientset
     ''default'' ''trust'')) =
   [from_key ''ca.crt'' (certInfo example_now (example_certificate ''plain'')),
    from_key ''tls.crt'' (certInfo example_now (example_certificate ''served''))]"
proof -
  have get: "ConfigMaps_Get example_clientset ''default'' ''trust'' = Inr example_configMap"
    by (simp add: example_clientset_def)
  have "certs_under_keys (example_lib example_now)
          (configMap_BinaryData example_configMap ++ configMap_Data example_configMap)
          configMap_certKeys =
        [from_key ''ca.crt'' (certInfo example_now (example_certificate ''plain'')),
         from_key ''tls.crt'' (certInfo example_now (example_certificate ''served''))]"
    by (simp add: certs_under_keys_def configMap_certKeys_def example_configMap_def
        parse_under_key_def ParseCertificate_def example_eval)
  then show ?thesis
    using get ExtractCertificatesFromConfigMap_plain_first [OF get, of "example_lib example_now"]
    by simp
qed


section \<open>The status summary and the remaining time\<close>

text \<open>
  C3. \<open>getExpiryStatusSummary\<close> is claimed to return EXPIRED whenever some record of the
  list is expired, whatever its position. For a record that expires in 10 days followed
  by an expired record, with a threshold of 30 days, it returns the label of the first
  record: its loop returns at the first record that is expired or within the threshold,
  before it has seen the expired one.
\<close>

theorem getExpiryStatusSummary_soon_before_expired:
  "getExpiryStatusSummary
     [example_record ''soon'' False 10, example_record ''old'' True (- 5)] 30 =
   ''EXPIRES SOON (10 days)''"
  by (simp add: getExpiryStatusSummary_def example_record_def Itoa_def nat_digits.simps
      digit_char_def)

lemma tdiv_nonneg: "0 \<le> a \<Longrightarrow> 0 < b \<Longrightarrow> tdiv a b = a div b"
  by (cases "a = 0") (simp_all add: tdiv_def)

lemma tmod_nonneg: "0 \<le> a \<Longrightarrow> 0 < b \<Longrightarrow> tmod a b = a mod b"
  by (simp add: tmod_def tdiv_nonneg minus_mult_div_eq_mod)

lemma rne_nonneg: "0 \<le> x \<Longrightarrow> 0 \<le> rne x"
  by (simp add: rne_def Let_def)

lemma round_float64_nonneg: "0 \<le> x \<Longrightarrow> 0 \<le> round_float64 x"
  by (simp add: round_float64_def Let_def rne_nonneg)

lemma Hours_nonneg: "0 \<le> d \<Longrightarrow> 0 \<le> Hours d"
proof -
  assume d: "0 \<le> d"
  have h: "0 \<le> tdiv d Hour" and n: "0 \<le> tmod d Hour"
    using d by (simp_all add: tdiv_nonneg tmod_nonneg Hour_def)
  show ?thesis
    using h n
    by (simp add: Hours_def Let_def fadd_def fdiv_def float64_of_int_def round_float64_nonneg)
qed

lemma int_of_float64_nonneg: "0 \<le> x \<Longrightarrow> int_of_float64 x = \<lfloor>x\<rfloor>"
  by (simp add: int_of_float64_def)









section \<open>The token of the fallback strategy\<close>

lemma index_in_nth: "distinct xs \<Longrightarrow> n < length xs \<Longrightarrow> index_in xs (xs ! n) = Some n"
proof (induction xs arbitrary: n)
  case Nil
  then show ?case by simp
next
  case (Cons x xs)
  then show ?case by (cases n) auto
qed

lemma length_encodeURL: "length encodeURL = 64"
  by (simp add: encodeURL_def)

lemma b1: "(x::nat) < 256 \<Longrightarrow> x div 4 < 64" by simp
lemma b2: "(y::nat) < 256 \<Longrightarrow> x mod 4 * 16 + y div 16 < 64"
proof -
  assume "y < 256"
  then have "y div 16 < 16" by simp
  moreover have "x mod 4 < 4" by simp
  ultimately show ?thesis by linarith
qed
lemma b3: "(z::nat) < 256 \<Longrightarrow> y mod 16 * 4 + z div 64 < 64"
proof -
  assume "z < 256"
  then have "z div 64 < 4" by simp
  moreover have "y mod 16 < 16" by simp
  ultimately show ?thesis by linarith
qed
lemma b4: "(z::nat) mod 64 < 64" by simp
lemma b5: "(y::nat) mod 16 * 4 < 64"
proof -
  have "y mod 16 < 16" by simp
  then show ?thesis by linarith
qed
lemma b6: "(x::nat) mod 4 * 16 < 64"
proof -
  have "x mod 4 < 4" by simp
  then show ?thesis by linarith
qed

lemma r1: "(y::nat) < 256 \<Longrightarrow> x div 4 * 4 + (x mod 4 * 16 + y div 16) div 16 = x"
proof -
  assume "y < 256"
  then have "y div 16 < 16" by simp
  then have "(x mod 4 * 16 + y div 16) div 16 = x mod 4" by simp
  then show ?thesis by simp
qed
lemma r2: "(y::nat) < 256 \<Longrightarrow> (z::nat) < 256 \<Longrightarrow>
  (x mod 4 * 16 + y div 16) mod 16 * 16 + (y mod 16 * 4 + z div 64) div 4 = y"
proof -
  assume y: "y < 256" and z: "z < 256"
  from z have "z div 64 < 4" by simp
  then have a: "(y mod 16 * 4 + z div 64) div 4 = y mod 16" by simp
  from y have "y div 16 < 16" by simp
  then have "(x mod 4 * 16 + y div 16) mod 16 = y div 16" by simp
  then show ?thesis using a by simp
qed
lemma r4: "(y::nat) < 256 \<Longrightarrow> (x mod 4 * 16 + y div 16) mod 16 * 16 + (y mod 16 * 4) div 4 = y"
proof -
  assume y: "y < 256"
  then have "y div 16 < 16" by simp
  then have "(x mod 4 * 16 + y div 16) mod 16 = y div 16" by simp
  then show ?thesis by simp
qed
lemma r5: "(x::nat) div 4 * 4 + (x mod 4 * 16) div 16 = x"
  by simp
lemma r3: "(z::nat) < 256 \<Longrightarrow> (y mod 16 * 4 + z div 64) mod 4 * 64 + z mod 64 = z"
proof -
  assume "z < 256"
  then have "z div 64 < 4" by simp
  then have "(y mod 16 * 4 + z div 64) mod 4 = z div 64" by simp
  then show ?thesis by simp
qed

lemma index_in_sextet: "n < 64 \<Longrightarrow> index_in encodeURL (sextet n) = Some n"
proof -
  assume "n < 64"
  moreover have "distinct encodeURL" by (simp add: encodeURL_def)
  ultimately show ?thesis
    by (simp add: sextet_def index_in_nth length_encodeURL)
qed

lemma of_char_nat_less: "(of_char c :: nat) < 256"
  by simp

lemma decode_group4:
  "index_in encodeURL (sextet (of_char a div 4)) = Some (of_char a div 4)"
  "index_in encodeURL (sextet (of_char a mod 4 * 16 + of_char b div 16)) =
     Some (of_char a mod 4 * 16 + of_char b div 16)"
  "index_in encodeURL (sextet (of_char b mod 16 * 4 + of_char c div 64)) =
     Some (of_char b mod 16 * 4 + of_char c div 64)"
  "index_in encodeURL (sextet (of_char c mod 64)) = Some (of_char c mod 64)"
  "index_in encodeURL (sextet (of_char b mod 16 * 4)) = Some (of_char b mod 16 * 4)"
  "index_in encodeURL (sextet (of_char a mod 4 * 16)) = Some (of_char a mod 4 * 16)"
  by (rule index_in_sextet, rule b1 b2 b3 b4 b5 b6, rule of_char_nat_less)+ 
     (rule index_in_sextet, rule b4 b5 b6)+

lemma bytes_back:
  "char_of ((of_char a :: nat) div 4 * 4 + (of_char a mod 4 * 16 + of_char b div 16) div 16) = a"
  "char_of (((of_char a :: nat) mod 4 * 16 + of_char b div 16) mod 16 * 16 +
     (of_char b mod 16 * 4 + of_char c div 64) div 4) = b"
  "char_of (((of_char b :: nat) mod 16 * 4 + of_char c div 64) mod 4 * 64 + of_char c mod 64) = c"
  "char_of (((of_char a :: nat) mod 4 * 16 + of_char b div 16) mod 16 * 16 +
     (of_char b mod 16 * 4) div 4) = b"
  "char_of ((of_char a :: nat) div 4 * 4 + (of_char a mod 4 * 16) div 16) = a"
  by (simp_all only: r1 [OF of_char_nat_less] r2 [OF of_char_nat_less of_char_nat_less]
      r3 [OF of_char_nat_less] r4 [OF of_char_nat_less] r5 char_of_char)

lemma RawURLDecoding_RawURLEncoding: "RawURLDecoding (RawURLEncoding bytes) = Some bytes"
proof (induction bytes rule: RawURLEncoding.induct)
  case (1 a b c rest)
  then show ?case
    by (simp only: RawURLEncoding.simps RawURLDecoding.simps append_Cons append_Nil
        decode_group4 bytes_back option.case prod.case option.map)
next
  case (2 a b)
  show ?case
    by (simp only: RawURLEncoding.simps RawURLDecoding.simps append_Cons append_Nil
        decode_group4 bytes_back option.case prod.case option.map)
next
  case (3 a)
  show ?case
    by (simp only: RawURLEncoding.simps RawURLDecoding.simps append_Cons append_Nil
        decode_group4 bytes_back option.case prod.case option.map)
next
  case 4
  show ?case by simp
qed


lemma has_prefix_append: "has_prefix (p @ q) p"
  by (induction p) simp_all

lemma Contains_has_prefix: "has_prefix s sub \<Longrightarrow> Contains s sub"
  by (cases s) (auto elim: has_prefix.elims)

lemma Contains_append_left: "Contains b sub \<Longrightarrow> Contains (a @ b) sub"
  by (induction a) simp_all

lemma Contains_suffix: "Contains (a @ sub @ q) sub"
  by (rule Contains_append_left, rule Contains_has_prefix, rule has_prefix_append)

lemma token_url_token: "token_url (''k8s-aws-v1.'' @ RawURLEncoding u) = Some u"
  by (simp add: token_url_def RawURLDecoding_RawURLEncoding)

lemma cluster_id_url_Contains:
  "\<not> Contains urlStr ''X-K8s-Aws-Id'' \<Longrightarrow>
   Contains (cluster_id_url urlStr clusterName) (''X-K8s-Aws-Id='' @ clusterName)"
proof -
  assume n: "\<not> Contains urlStr ''X-K8s-Aws-Id''"
  have "Contains ((urlStr @ (if \<not> Contains urlStr ''?'' then ''?'' else ''&'')) @
          (''X-K8s-Aws-Id='' @ clusterName) @ []) (''X-K8s-Aws-Id='' @ clusterName)"
    by (rule Contains_suffix)
  then show ?thesis
    using n by (simp add: cluster_id_url_def Let_def)
qed

lemmas world_eval = presigned_url_def load_config_def assume_role_def presign_def
  example_world_def example_cfg_def

lemma example_presigned:
  "presigned_url (example_world helper (Inr u)) example_cfg [] =
     (Inr u, [CallLoadDefaultConfig, CallGetCallerIdentity, CallPresignGetCallerIdentity])"
  by (simp add: world_eval)

lemma enc_example_demo:
  "RawURLEncoding (example_url @ ''&X-K8s-Aws-Id=demo'') =
   ''aHR0cHM6Ly9zdHMuZXUtd2VzdC0xLmFtYXpvbmF3cy5jb20vP0FjdGlvbj1HZXRDYWxsZXJJZGVudGl0eSZYLUs4cy1Bd3MtSWQ9ZGVtbw''"
  by (simp add: example_url_def sextet_def encodeURL_def)

lemma enc_example_prod:
  "RawURLEncoding (example_url @ ''&X-K8s-Aws-Id=prod'') =
   ''aHR0cHM6Ly9zdHMuZXUtd2VzdC0xLmFtYXpvbmF3cy5jb20vP0FjdGlvbj1HZXRDYWxsZXJJZGVudGl0eSZYLUs4cy1Bd3MtSWQ9cHJvZA''"
  by (simp add: example_url_def sextet_def encodeURL_def)


text \<open>
  C5. The token is claimed to decode, for every cluster name and presigned URL, to a URL
  that contains \<open>X-K8s-Aws-Id=<clusterName>\<close>. When the presigned URL already holds the
  text \<open>X-K8s-Aws-Id\<close> with another value, nothing is appended: for the cluster
  \<open>demo\<close> and a URL ending in \<open>X-K8s-Aws-Id=prod\<close> the token decodes to that URL, which
  does not contain \<open>X-K8s-Aws-Id=demo\<close>.
\<close>

theorem GenerateToken_foreign_cluster_id:
  "fst (GenerateToken (example_world (Inl ''exit status 1'')
          (Inr (example_url @ ''&X-K8s-Aws-Id=prod''))) example_cfg ''demo'' []) =
     Inr ''k8s-aws-v1.aHR0cHM6Ly9zdHMuZXUtd2VzdC0xLmFtYXpvbmF3cy5jb20vP0FjdGlvbj1HZXRDYWxsZXJJZGVudGl0eSZYLUs4cy1Bd3MtSWQ9cHJvZA'' \<and>
   token_url ''k8s-aws-v1.aHR0cHM6Ly9zdHMuZXUtd2VzdC0xLmFtYXpvbmF3cy5jb20vP0FjdGlvbj1HZXRDYWxsZXJJZGVudGl0eSZYLUs4cy1Bd3MtSWQ9cHJvZA'' =
     Some (example_url @ ''&X-K8s-Aws-Id=prod'') \<and>
   \<not> Contains (example_url @ ''&X-K8s-Aws-Id=prod'') ''X-K8s-Aws-Id=demo''"
proof (intro conjI)
  have c: "Contains (example_url @ ''&X-K8s-Aws-Id=prod'') ''X-K8s-Aws-Id''"
    by (simp add: example_url_def)
  show "fst (GenerateToken (example_world (Inl ''exit status 1'')
          (Inr (example_url @ ''&X-K8s-Aws-Id=prod''))) example_cfg ''demo'' []) =
     Inr ''k8s-aws-v1.aHR0cHM6Ly9zdHMuZXUtd2VzdC0xLmFtYXpvbmF3cy5jb20vP0FjdGlvbj1HZXRDYWxsZXJJZGVudGl0eSZYLUs4cy1Bd3MtSWQ9cHJvZA''"
    using c by (simp add: GenerateToken_def example_presigned cluster_id_url_def enc_example_prod)
  show "token_url ''k8s-aws-v1.aHR0cHM6Ly9zdHMuZXUtd2VzdC0xLmFtYXpvbmF3cy5jb20vP0FjdGlvbj1HZXRDYWxsZXJJZGVudGl0eSZYLUs4cy1Bd3MtSWQ9cHJvZA'' =
     Some (example_url @ ''&X-K8s-Aws-Id=prod'')"
    using token_url_token [of "example_url @ ''&X-K8s-Aws-Id=prod''"]
    by (simp only: enc_example_prod append_Cons append_Nil)
  show "\<not> Contains (example_url @ ''&X-K8s-Aws-Id=prod'') ''X-K8s-Aws-Id=demo''"
    by (simp add: example_url_def)
qed

text \<open>
  C5, as the code has it. When the steps before it succeed with a presigned URL,
  \<open>GenerateToken\<close> returns the prefix \<open>k8s-aws-v1.\<close> followed by the unpadded URL-safe
  base64 text of the URL after the cluster name was added, and the token decodes to that
  URL. The parameter is appended exactly when the URL does not contain the text
  \<open>X-K8s-Aws-Id\<close>, after \<open>&\<close> when the URL contains \<open>?\<close> and after \<open>?\<close> otherwise; in
  that case the decoded URL contains \<open>X-K8s-Aws-Id=<clusterName>\<close>, and otherwise it is the
  presigned URL unchanged.
\<close>

theorem GenerateToken_token:
  assumes "presigned_url W cfg roleARNToAssume = (Inr urlStr, calls)"
  shows "fst (GenerateToken W cfg clusterName roleARNToAssume) =
           Inr (''k8s-aws-v1.'' @ RawURLEncoding (cluster_id_url urlStr clusterName)) \<and>
         token_url (''k8s-aws-v1.'' @ RawURLEncoding (cluster_id_url urlStr clusterName)) =
           Some (cluster_id_url urlStr clusterName) \<and>
         cluster_id_url urlStr clusterName =
           (if Contains urlStr ''X-K8s-Aws-Id'' then urlStr
            else urlStr @ (if Contains urlStr ''?'' then ''&'' else ''?'') @
                 ''X-K8s-Aws-Id='' @ clusterName) \<and>
         (\<not> Contains urlStr ''X-K8s-Aws-Id'' \<longrightarrow>
            Contains (cluster_id_url urlStr clusterName) (''X-K8s-Aws-Id='' @ clusterName))"
proof (intro conjI)
  show "fst (GenerateToken W cfg clusterName roleARNToAssume) =
           Inr (''k8s-aws-v1.'' @ RawURLEncoding (cluster_id_url urlStr clusterName))"
    using assms by (simp add: GenerateToken_def)
  show "token_url (''k8s-aws-v1.'' @ RawURLEncoding (cluster_id_url urlStr clusterName)) =
           Some (cluster_id_url urlStr clusterName)"
    by (rule token_url_token)
  show "cluster_id_url urlStr clusterName =
           (if Contains urlStr ''X-K8s-Aws-Id'' then urlStr
            else urlStr @ (if Contains urlStr ''?'' then ''&'' else ''?'') @
                 ''X-K8s-Aws-Id='' @ clusterName)"
    by (simp add: cluster_id_url_def Let_def)
  show "\<not> Contains urlStr ''X-K8s-Aws-Id'' \<longrightarrow>
            Contains (cluster_id_url urlStr clusterName) (''X-K8s-Aws-Id='' @ clusterName)"
    by (rule impI) (rule cluster_id_url_Contains)
qed

theorem GenerateToken_token_witness:
  "presigned_url (example_world (Inl ''exit status 1'') (Inr example_url)) example_cfg [] =
     (Inr example_url, [CallLoadDefaultConfig, CallGetCallerIdentity, CallPresignGetCallerIdentity]) \<and>
   \<not> Contains example_url ''X-K8s-Aws-Id'' \<and>
   fst (GenerateToken (example_world (Inl ''exit status 1'') (Inr example_url)) example_cfg
          ''demo'' []) =
     Inr ''k8s-aws-v1.aHR0cHM6Ly9zdHMuZXUtd2VzdC0xLmFtYXpvbmF3cy5jb20vP0FjdGlvbj1HZXRDYWxsZXJJZGVudGl0eSZYLUs4cy1Bd3MtSWQ9ZGVtbw'' \<and>
   Contains (cluster_id_url example_url ''demo'') ''X-K8s-Aws-Id=demo''"
proof -
  have n: "\<not> Contains example_url ''X-K8s-Aws-Id''"
    by (simp add: example_url_def)
  have q: "Contains example_url ''?''"
    by (simp add: example_url_def)
  have u: "cluster_id_url example_url ''demo'' = example_url @ ''&X-K8s-Aws-Id=demo''"
    using n q by (simp add: cluster_id_url_def)
  show ?thesis
    using GenerateToken_token [OF example_presigned, of "Inl ''exit status 1''" example_url "''demo''"]
      n example_presigned [of "Inl ''exit status 1''" example_url]
    by (simp add: u enc_example_demo)
qed


section \<open>The two strategies of NewClient\<close>

lemma helper_calls:
  "snd (GenerateTokenUsingAuthenticator W cfg clusterName roleARN) =
     [CallExec ''aws-iam-authenticator''
        ([''token'', ''-i'', clusterName] @ (if roleARN \<noteq> [] then [''-r'', roleARN] else []))]"
  by (simp add: GenerateTokenUsingAuthenticator_def Let_def split: sum.splits)

lemma helper_runs_helper:
  "helper_runs (snd (GenerateTokenUsingAuthenticator W cfg clusterName roleARN)) = 1"
  "fallback_runs (snd (GenerateTokenUsingAuthenticator W cfg clusterName roleARN)) = 0"
  by (simp_all add: helper_calls helper_runs_def fallback_runs_def)









lemma NewClient_token_ok:
  assumes "parseKubeConfigForEKS W = Inr eksDetails"
    and "client_token W cfg eksDetails = (Inr token, calls)"
  shows "snd (NewClient W cfg) = calls @ [CallNewForConfig]"
    and "\<forall>err. fst (NewClient W cfg) \<noteq> Inl (FailedToGenerateEKSToken err)"
    and "\<forall>client. fst (NewClient W cfg) = Inr client \<longrightarrow>
           BearerToken (client_config client) = token"
  using assms by (auto simp: NewClient_def Let_def split: sum.splits)

















section \<open>The days until expiry\<close>

text \<open>
  \<open>ParseCertificate\<close> computes the days as \<open>int(notAfter.Sub(now).Hours() / 24)\<close>: the hours are
  a float64, the sum of the whole hours and of the rounded fraction of the last hour,
  rounded again; the division by 24 rounds a third time. The lemmas below bound the three
  roundings: a value that lies on the grid of the binade of \<open>x\<close> bounds the rounded \<open>x\<close>
  as it bounds \<open>x\<close>.
\<close>

subsection \<open>Rounding to float64\<close>

lemma rne_le: "x \<le> of_int m \<Longrightarrow> rne x \<le> m"
proof -
  assume le: "x \<le> of_int m"
  have f: "\<lfloor>x\<rfloor> \<le> m" using le by (simp add: floor_le_iff) 
  show ?thesis
  proof (cases "x = of_int \<lfloor>x\<rfloor>")
    case True
    then have "x - of_int \<lfloor>x\<rfloor> = 0" by simp
    then show ?thesis using f by (simp add: rne_def Let_def)
  next
    case False
    then have "of_int \<lfloor>x\<rfloor> < x" using of_int_floor_le [of x] by linarith
    then have "of_int \<lfloor>x\<rfloor> < (of_int m :: rat)" using le by linarith
    then have "\<lfloor>x\<rfloor> < m" by simp
    then show ?thesis by (simp add: rne_def Let_def)
  qed
qed

lemma rne_ge: "of_int m \<le> x \<Longrightarrow> m \<le> rne x"
proof -
  assume "of_int m \<le> x"
  then have "m \<le> \<lfloor>x\<rfloor>" by (simp add: le_floor_iff)
  then show ?thesis by (simp add: rne_def Let_def)
qed

lemma rne_lt_half: "x < of_int m - 1 / 2 \<Longrightarrow> rne x \<le> m - 1"
proof -
  assume lt: "x < of_int m - 1 / 2"
  then have "x < of_int m" by linarith
  then have f: "\<lfloor>x\<rfloor> \<le> m - 1" by (simp add: floor_less_iff)
  show ?thesis
  proof (cases "\<lfloor>x\<rfloor> = m - 1")
    case True
    then have "x - of_int \<lfloor>x\<rfloor> < 1 / 2" using lt by simp
    then show ?thesis using True by (simp add: rne_def Let_def)
  next
    case False
    then have "\<lfloor>x\<rfloor> + 1 \<le> m - 1" using f by linarith
    then show ?thesis by (simp add: rne_def Let_def)
  qed
qed

lemma rne_minus: "rne (- x) = - rne x"
proof (cases "x = of_int \<lfloor>x\<rfloor>")
  case True
  then obtain i where "x = of_int i" ..
  then show ?thesis by (simp add: rne_def Let_def)
next
  case False
  then have "of_int \<lfloor>x\<rfloor> < x" using of_int_floor_le [of x] by linarith
  moreover have "x < of_int \<lfloor>x\<rfloor> + 1" by linarith
  ultimately have "of_int (- \<lfloor>x\<rfloor> - 1) \<le> - x" "- x < of_int (- \<lfloor>x\<rfloor> - 1) + 1"
    by simp_all
  then have nf: "\<lfloor>- x\<rfloor> = - \<lfloor>x\<rfloor> - 1"
    by (rule floor_unique)
  define f where "f = \<lfloor>x\<rfloor>"
  define d where "d = x - of_int f"
  have d: "0 < d" "d < 1" using False by (simp_all add: d_def f_def) linarith+
  have d': "- x - of_int (- f - 1) = 1 - d" by (simp add: d_def)
  have ev: "even (- f - 1) = odd f" by simp
  show ?thesis
    using d
    unfolding rne_def Let_def nf f_def [symmetric] d' d_def [symmetric] ev
    by (auto simp: not_less)
qed


lemma fexp_minus: "fexp (- x) = fexp x"
  by (simp add: fexp_def)

lemma round_float64_minus: "round_float64 (- x) = - round_float64 x"
  by (simp add: round_float64_def Let_def fexp_minus rne_minus)

lemma round_float64_nonpos: "x \<le> 0 \<Longrightarrow> round_float64 x \<le> 0"
  using round_float64_nonneg [of "- x"] by (simp add: round_float64_minus)

lemma quantum_pos: "0 < (2::rat) powi k"
  by simp

lemma rd_le_grid:
  assumes "x \<noteq> 0" and "x \<le> v" and "v = of_int m * 2 powi (fexp x - 52)"
  shows "round_float64 x \<le> v"
proof -
  define q :: rat where "q = 2 powi (fexp x - 52)"
  have q: "0 < q" by (simp add: q_def)
  have "x / q \<le> of_int m"
    using assms q by (simp add: q_def [symmetric] pos_divide_le_eq)
  then have "rne (x / q) \<le> m" by (rule rne_le)
  then have "(of_int (rne (x / q)) :: rat) \<le> of_int m" by simp
  then have "of_int (rne (x / q)) * q \<le> of_int m * q"
    using q by (simp add: mult_right_mono)
  then show ?thesis
    using assms by (simp add: round_float64_def Let_def q_def)
qed

lemma rd_ge_grid:
  assumes "x \<noteq> 0" and "v \<le> x" and "v = of_int m * 2 powi (fexp x - 52)"
  shows "v \<le> round_float64 x"
proof -
  define q :: rat where "q = 2 powi (fexp x - 52)"
  have q: "0 < q" by (simp add: q_def)
  have "of_int m \<le> x / q"
    using assms q by (simp add: q_def [symmetric] pos_le_divide_eq)
  then have "m \<le> rne (x / q)" by (rule rne_ge)
  then have "(of_int m :: rat) \<le> of_int (rne (x / q))" by simp
  then have "of_int m * q \<le> of_int (rne (x / q)) * q"
    using q by (simp add: mult_right_mono)
  then show ?thesis
    using assms by (simp add: round_float64_def Let_def q_def)
qed

lemma rd_lt_grid:
  assumes "x \<noteq> 0" and "x < v - 2 powi (fexp x - 52) / 2"
    and "v = of_int m * 2 powi (fexp x - 52)"
  shows "round_float64 x \<le> v - 2 powi (fexp x - 52)"
proof -
  define q :: rat where "q = 2 powi (fexp x - 52)"
  have q: "0 < q" by (simp add: q_def)
  have "x < (of_int m - 1 / 2) * q"
    using assms by (simp add: q_def [symmetric] algebra_simps)
  then have "x / q < of_int m - 1 / 2"
    using q by (simp add: pos_divide_less_eq)
  then have "rne (x / q) \<le> m - 1" by (rule rne_lt_half)
  then have "(of_int (rne (x / q)) :: rat) \<le> of_int (m - 1)" by (simp only: of_int_le_iff)
  then have "of_int (rne (x / q)) * q \<le> of_int (m - 1) * q"
    using q by (simp add: mult_right_mono)
  then show ?thesis
    using assms by (simp add: round_float64_def Let_def q_def algebra_simps)
qed

lemma grid_coarser:
  assumes "k \<le> j"
  shows "\<exists>m. of_int M * (2::rat) powi j = of_int m * 2 powi k"
proof -
  have "(2::rat) powi j = 2 powi (j - k) * 2 powi k"
    by (simp add: power_int_add [symmetric])
  moreover have "(2::rat) powi (j - k) = of_int (2 ^ nat (j - k))"
    using assms by (simp add: power_int_def)
  ultimately have "of_int M * (2::rat) powi j = of_int (M * 2 ^ nat (j - k)) * 2 powi k"
    by simp
  then show ?thesis ..
qed


lemma bitlen_pos_bounds:
  assumes "1 \<le> (i::int)"
  shows "0 \<le> bitlen i - 1"
    and "(2::rat) powi (bitlen i - 1) \<le> of_int i"
    and "(of_int i :: rat) + 1 \<le> 2 * 2 powi (bitlen i - 1)"
proof -
  have b: "2 ^ nat (bitlen i - 1) \<le> i" "i < 2 ^ nat (bitlen i)"
    using bitlen_bounds [of i] assms by simp_all
  show k: "0 \<le> bitlen i - 1"
  proof (rule ccontr)
    assume "\<not> 0 \<le> bitlen i - 1"
    then have "nat (bitlen i) = 0" by simp
    then show False using b(2) assms by simp
  qed
  have p: "(2::rat) powi (bitlen i - 1) = of_int (2 ^ nat (bitlen i - 1))"
    using k by (simp add: power_int_def)
  show "(2::rat) powi (bitlen i - 1) \<le> of_int i"
    unfolding p using b(1) by (simp only: of_int_le_iff)
  have "nat (bitlen i) = Suc (nat (bitlen i - 1))"
    using k by simp
  then have "i + 1 \<le> 2 * 2 ^ nat (bitlen i - 1)"
    using b(2) by simp
  then have "(of_int (i + 1) :: rat) \<le> of_int (2 * 2 ^ nat (bitlen i - 1))"
    by (simp only: of_int_le_iff)
  then show "(of_int i :: rat) + 1 \<le> 2 * 2 powi (bitlen i - 1)"
    unfolding p by simp
qed

lemma fexp_bounds:
  assumes "x \<noteq> 0"
  shows "2 powi (fexp x) \<le> \<bar>x\<bar>" and "\<bar>x\<bar> < 2 * 2 powi (fexp x)"
proof -
  define a where "a = \<bar>x\<bar>"
  have a: "0 < a" using assms by (simp add: a_def)
  have "2 powi (fexp x) \<le> a \<and> a < 2 * 2 powi (fexp x)"
  proof (cases "1 \<le> a")
    case True
    then have fl: "1 \<le> \<lfloor>a\<rfloor>" by simp
    have e: "fexp x = bitlen \<lfloor>a\<rfloor> - 1"
      using True by (simp add: fexp_def a_def)
    note bb = bitlen_pos_bounds [OF fl]
    have "of_int \<lfloor>a\<rfloor> \<le> a" by simp
    moreover have "a < of_int \<lfloor>a\<rfloor> + 1" by linarith
    ultimately show ?thesis
      unfolding e using bb(2) bb(3) by linarith
  next
    case False
    define b where "b = 1 / a"
    have b1: "1 < b" using False a by (simp add: b_def)
    then have fl: "1 \<le> \<lfloor>b\<rfloor>" by simp
    define k where "k = bitlen \<lfloor>b\<rfloor> - 1"
    define P :: rat where "P = 2 powi k"
    have P: "0 < P" by (simp add: P_def)
    note bb = bitlen_pos_bounds [OF fl, folded k_def P_def]
    have "of_int \<lfloor>b\<rfloor> \<le> b" by simp
    moreover have "b < of_int \<lfloor>b\<rfloor> + 1" by linarith
    ultimately have Pb: "P \<le> b" "b < 2 * P"
      using bb(2) bb(3) by linarith+
    have aP: "a * P \<le> 1" "1 < a * (2 * P)"
      using Pb a by (simp_all add: b_def field_simps)
    have m1: "(2::rat) powi (- k) = 1 / P"
      by (simp add: P_def power_int_minus_divide)
    have m2: "(2::rat) powi (- k - 1) = 1 / (2 * P)"
    proof -
      have "- k - 1 = - (k + 1)" by simp
      then have "(2::rat) powi (- k - 1) = 2 powi (- (k + 1))" by (simp only:)
      also have "\<dots> = 1 / 2 powi (k + 1)" by (simp only: power_int_minus_divide)
      also have "(2::rat) powi (k + 1) = 2 powi k * 2" by (simp add: power_int_add)
      finally show ?thesis by (simp add: P_def mult.commute)
    qed
    show ?thesis
    proof (cases "a * P = 1")
      case True
      then have e: "fexp x = - k"
        using False by (simp add: fexp_def a_def [symmetric] Let_def b_def [symmetric]
            k_def [symmetric] P_def [symmetric])
      have "a = 1 / P" using True P by (simp add: field_simps)
      moreover have "0 < 1 / P" using P by simp
      ultimately show ?thesis unfolding e m1 by linarith
    next
      case ne: False
      then have e: "fexp x = - k - 1"
        using False by (simp add: fexp_def a_def [symmetric] Let_def b_def [symmetric]
            k_def [symmetric] P_def [symmetric])
      have "a * P < 1" using aP(1) ne by linarith
      then have 1: "a < 1 / P" using P by (simp add: field_simps)
      have 2: "1 / (2 * P) < a" using aP(2) P by (simp add: field_simps)
      show ?thesis unfolding e m2 using 1 2 P by (simp add: field_simps)
    qed
  qed
  then show "2 powi (fexp x) \<le> \<bar>x\<bar>" and "\<bar>x\<bar> < 2 * 2 powi (fexp x)"
    by (simp_all add: a_def)
qed

lemma fexp_less:
  assumes "x \<noteq> 0" and "\<bar>x\<bar> < 2 powi k"
  shows "fexp x < k"
proof (rule ccontr)
  assume "\<not> fexp x < k"
  then have "k \<le> fexp x" by simp
  then have "(2::rat) powi k \<le> 2 powi (fexp x)"
    by (simp add: power_int_increasing)
  then show False using fexp_bounds(1) [OF assms(1)] assms(2) by linarith
qed

lemma fexp_ge:
  assumes "x \<noteq> 0" and "2 powi k \<le> \<bar>x\<bar>"
  shows "k \<le> fexp x"
proof (rule ccontr)
  assume "\<not> k \<le> fexp x"
  then have "fexp x + 1 \<le> k" by simp
  then have "(2::rat) powi (fexp x + 1) \<le> 2 powi k"
    by (simp add: power_int_increasing)
  moreover have "(2::rat) powi (fexp x + 1) = 2 * 2 powi (fexp x)"
    by (simp add: power_int_add)
  ultimately show False using fexp_bounds(2) [OF assms(1)] assms(2) by linarith
qed


lemma powi_values: "(2::rat) powi (- 50) = 1 / 1125899906842624" "(2::rat) powi 53 = 9007199254740992"
  by simp_all

lemma rd_le_int:
  assumes "\<bar>x\<bar> < 2 powi 53" and "x \<le> of_int K"
  shows "round_float64 x \<le> of_int K"
proof (cases "x = 0")
  case True
  then show ?thesis using assms by (simp add: round_float64_def)
next
  case False
  have "fexp x < 53" using False assms(1) by (rule fexp_less)
  then have "fexp x - 52 \<le> 0" by simp
  then obtain m where "of_int K * (2::rat) powi 0 = of_int m * 2 powi (fexp x - 52)"
    using grid_coarser by blast
  then have "of_int K = of_int m * (2::rat) powi (fexp x - 52)" by simp
  with False assms(2) show ?thesis by (rule rd_le_grid)
qed

lemma rd_ge_int:
  assumes "\<bar>x\<bar> < 2 powi 53" and "of_int K \<le> x"
  shows "of_int K \<le> round_float64 x"
proof (cases "x = 0")
  case True
  then show ?thesis using assms by (simp add: round_float64_def)
next
  case False
  have "fexp x < 53" using False assms(1) by (rule fexp_less)
  then have "fexp x - 52 \<le> 0" by simp
  then obtain m where "of_int K * (2::rat) powi 0 = of_int m * 2 powi (fexp x - 52)"
    using grid_coarser by blast
  then have "of_int K = of_int m * (2::rat) powi (fexp x - 52)" by simp
  with False assms(2) show ?thesis by (rule rd_ge_grid)
qed

lemma rd_int:
  assumes "\<bar>i\<bar> < 2 ^ 53"
  shows "round_float64 (of_int i) = of_int i"
proof -
  have "\<bar>of_int i :: rat\<bar> < of_int (2 ^ 53)"
    using assms by (simp only: of_int_abs [symmetric] of_int_less_iff)
  then have b: "\<bar>of_int i :: rat\<bar> < 2 powi 53" by simp
  have "round_float64 (of_int i) \<le> of_int i" using b by (rule rd_le_int) simp
  moreover have "of_int i \<le> round_float64 (of_int i)" using b by (rule rd_ge_int) simp
  ultimately show ?thesis by simp
qed

text \<open>the fraction of an hour\<close>

lemma fraction_bounds:
  assumes "0 \<le> n" and "n < 3600000000000"
  shows "0 \<le> fdiv (float64_of_int n) 3600000000000"
    and "fdiv (float64_of_int n) 3600000000000 \<le> 1 - 1 / 2 ^ 42 - 1 / 2 ^ 50"
proof -
  have fi: "float64_of_int n = of_int n"
    unfolding float64_of_int_def using assms by (intro rd_int) simp
  define x :: rat where "x = of_int n / 3600000000000"
  have x0: "0 \<le> x" using assms by (simp add: x_def)
  have "n \<le> 3599999999999" using assms by simp
  then have "(of_int n :: rat) \<le> of_int 3599999999999" by (simp only: of_int_le_iff)
  then have x1: "x \<le> 3599999999999 / 3600000000000"
    by (simp add: x_def)
  show "0 \<le> fdiv (float64_of_int n) 3600000000000"
    unfolding fi fdiv_def x_def [symmetric] using x0 by (rule round_float64_nonneg)
  show "fdiv (float64_of_int n) 3600000000000 \<le> 1 - 1 / 2 ^ 42 - 1 / 2 ^ 50"
  proof (cases "x = 0")
    case True
    then show ?thesis unfolding fi fdiv_def x_def [symmetric] by (simp add: round_float64_def)
  next
    case False
    have "\<bar>x\<bar> < 2 powi 0" using x0 x1 by simp
    with False have "fexp x < 0" by (rule fexp_less)
    then have "fexp x - 52 \<le> - 50" by simp
    then obtain m where
      "of_int (2 ^ 50 - 2 ^ 8 - 1) * (2::rat) powi (- 50) = of_int m * 2 powi (fexp x - 52)"
      using grid_coarser by blast
    moreover have "of_int (2 ^ 50 - 2 ^ 8 - 1) * (2::rat) powi (- 50) = 1 - 1 / 2 ^ 42 - 1 / 2 ^ 50"
      by simp
    ultimately have g: "1 - 1 / 2 ^ 42 - 1 / 2 ^ 50 = of_int m * (2::rat) powi (fexp x - 52)"
      by simp
    have "x \<le> 1 - 1 / 2 ^ 42 - 1 / 2 ^ 50" using x1 by simp
    with False show ?thesis
      unfolding fi fdiv_def x_def [symmetric] using g by (rule rd_le_grid)
  qed
qed


lemma powi_shift: "(2::rat) powi (k + 4) = 16 * 2 powi k" "(2::rat) powi (k + 1) = 2 * 2 powi k"
  by (simp_all add: power_int_add)

lemma powi_mono: "j \<le> k \<Longrightarrow> (2::rat) powi j \<le> 2 powi k"
  by (simp add: power_int_increasing)

lemma hour_parts:
  assumes "0 \<le> d" and "d \<le> 2 ^ 63"
  shows "0 \<le> d div Hour" and "d div Hour < 2 ^ 22"
    and "0 \<le> d mod Hour" and "d mod Hour < 3600000000000"
proof -
  show "0 \<le> d div Hour" using assms by (simp add: Hour_def pos_imp_zdiv_nonneg_iff)
  have "d div Hour \<le> (2 ^ 63) div Hour"
    using assms by (intro zdiv_mono1) (simp_all add: Hour_def)
  also have "(2 ^ 63) div Hour < (2 ^ 22 :: int)" by (simp add: Hour_def)
  finally show "d div Hour < 2 ^ 22" .
  show "0 \<le> d mod Hour" by (simp add: Hour_def)
  show "d mod Hour < 3600000000000" by (simp add: Hour_def)
qed

lemma Hours_nonneg_form:
  assumes "0 \<le> d" and "d \<le> 2 ^ 63"
  shows "Hours d = round_float64 (of_int (d div Hour) +
           fdiv (float64_of_int (d mod Hour)) 3600000000000)"
proof -
  note hp = hour_parts [OF assms]
  have "\<bar>d div Hour\<bar> < 2 ^ 53" using hp(1) hp(2) by simp
  then have "float64_of_int (d div Hour) = of_int (d div Hour)"
    unfolding float64_of_int_def by (rule rd_int)
  moreover have "tdiv d Hour = d div Hour" "tmod d Hour = d mod Hour"
    using assms by (simp_all add: tdiv_nonneg tmod_nonneg Hour_def)
  ultimately show ?thesis by (simp add: Hours_def Let_def fadd_def)
qed


lemma days_from_hours:
  assumes h0: "0 \<le> h" and h22: "h < 2 ^ 22"
    and f0: "0 \<le> f" and f1: "f \<le> 1 - 1 / 2 ^ 42 - 1 / 2 ^ 50"
    and side: "h < 4096 \<or> h mod 24 \<noteq> 23"
  shows "\<lfloor>round_float64 (round_float64 (of_int h + f) / 24)\<rfloor> = h div 24"
proof -
  define x1 :: rat where "x1 = of_int h + f"
  define H where "H = round_float64 x1"
  define x2 where "x2 = H / 24"
  define Q where "Q = round_float64 x2"
  define q where "q = h div 24"
  have "(of_int 0 :: rat) \<le> of_int h" "(of_int h :: rat) < of_int (2 ^ 22)"
    using h0 h22 by (simp_all only: of_int_le_iff of_int_less_iff)
  then have hr: "(0::rat) \<le> of_int h" "(of_int h :: rat) < 2 ^ 22"
    by simp_all
  have x1: "of_int h \<le> x1" "x1 < of_int h + 1" "0 \<le> x1"
    using f0 f1 hr by (simp_all add: x1_def)
  have x1b: "\<bar>x1\<bar> < 2 powi 53" using x1 hr by simp
  have Hl: "of_int h \<le> H" unfolding H_def using x1b x1(1) by (rule rd_ge_int)
  have "x1 \<le> of_int (h + 1)" using x1(2) by simp
  with x1b have "H \<le> of_int (h + 1)" unfolding H_def by (rule rd_le_int)
  then have Hu: "H \<le> of_int h + 1" by simp
  have x2: "0 \<le> x2" "of_int h / 24 \<le> x2" "x2 \<le> (of_int h + 1) / 24"
    using Hl Hu hr by (simp_all add: x2_def)
  have x2b: "\<bar>x2\<bar> < 2 powi 22" using x2 hr by simp
  then have x2b': "\<bar>x2\<bar> < 2 powi 53" by simp
  have md: "24 * q + h mod 24 = h" "0 \<le> h mod 24" "h mod 24 < 24"
    unfolding q_def by simp_all
  have "24 * q \<le> h" using md by linarith
  then have "(of_int (24 * q) :: rat) \<le> of_int h" by (simp only: of_int_le_iff)
  then have qh: "of_int q \<le> (of_int h :: rat) / 24" by simp
  have q0: "0 \<le> q" using h0 by (simp add: q_def pos_imp_zdiv_nonneg_iff)
  have Ql: "of_int q \<le> Q"
    unfolding Q_def using x2b' by (rule rd_ge_int) (use qh x2 in linarith)
  have Qu: "Q < of_int q + 1"
  proof (cases "x2 = 0")
    case True
    then have "Q = 0" by (simp add: Q_def round_float64_def)
    moreover have "0 \<le> q" using h0 by (simp add: q_def pos_imp_zdiv_nonneg_iff)
    ultimately show ?thesis by simp
  next
    case False
    define e2 where "e2 = fexp x2"
    have e2: "e2 < 22" unfolding e2_def using False x2b by (rule fexp_less)
    then have "e2 - 52 \<le> 0" by simp
    then obtain m where "of_int (q + 1) * (2::rat) powi 0 = of_int m * 2 powi (e2 - 52)"
      using grid_coarser by blast
    then have grid: "of_int q + 1 = of_int m * (2::rat) powi (fexp x2 - 52)"
      by (simp add: e2_def)
    have key: "x2 < of_int q + 1 - 2 powi (fexp x2 - 52) / 2"
    proof (cases "h mod 24 \<noteq> 23")
      case True
      from True md(3) have "h mod 24 \<le> 22" by simp
      then have "h + 1 \<le> 24 * q + 23"
        using md(1) by linarith
      then have "(of_int (h + 1) :: rat) \<le> of_int (24 * q + 23)" by (simp only: of_int_le_iff)
      then have a: "x2 \<le> of_int q + 23 / 24" using x2(3) by simp
      have "(2::rat) powi (e2 - 52) \<le> 2 powi (- 31)"
        using e2 by (intro powi_mono) simp
      then have "(2::rat) powi (fexp x2 - 52) / 2 < 1 / 24"
        by (simp add: e2_def)
      with a show ?thesis by linarith
    next
      case r23: False
      with side have h4096: "h < 4096" by simp
      from r23 have "h mod 24 = 23" by simp
      then have m23: "24 * q + 23 = h" using md(1) by simp
      have h23: "23 \<le> h" using m23 q0 by linarith
      have hq1: "h + 1 = 24 * (q + 1)" using m23 by (simp add: algebra_simps)
      have "h + 1 \<le> 4096" using h4096 by simp
      then have "(of_int 23 :: rat) \<le> of_int h" "(of_int (h + 1) :: rat) \<le> of_int 4096"
        using h23 by (simp_all only: of_int_le_iff)
      then have hr23: "(23::rat) \<le> of_int h" "(of_int h :: rat) + 1 \<le> 4096"
        by simp_all
      have x1n: "x1 \<noteq> 0" using x1(1) hr23 by simp
      define e1 where "e1 = fexp x1"
      have "(2::rat) powi 0 \<le> \<bar>x1\<bar>" using x1(1) hr23 by simp
      with x1n have e1l: "0 \<le> e1" unfolding e1_def by (rule fexp_ge)
      have "\<bar>x1\<bar> < 2 powi 12" using x1 hr23 by simp
      with x1n have e1u: "e1 < 12" unfolding e1_def by (rule fexp_less)
      define D1 :: rat where "D1 = 2 powi (e1 - 52)"
      have D1: "0 < D1" by (simp add: D1_def)
      have "D1 \<le> 2 powi (- 41)"
        unfolding D1_def using e1u by (intro powi_mono) simp
      then have D1u: "D1 / 2 \<le> 1 / 2 ^ 42" by simp
      have "e1 - 52 \<le> 0" using e1u by simp
      then obtain m1 where "of_int (h + 1) * (2::rat) powi 0 = of_int m1 * 2 powi (e1 - 52)"
        using grid_coarser by blast
      then have grid1: "of_int h + 1 = of_int m1 * (2::rat) powi (fexp x1 - 52)"
        by (simp add: e1_def)
      have "f < 1 - D1 / 2" using f1 D1u by simp
      then have "x1 < of_int h + 1 - D1 / 2" unfolding x1_def by linarith
      then have "x1 < of_int h + 1 - 2 powi (fexp x1 - 52) / 2"
        by (simp only: D1_def e1_def)
      with x1n have "round_float64 x1 \<le> of_int h + 1 - 2 powi (fexp x1 - 52)"
        using grid1 by (rule rd_lt_grid)
      then have HD: "H \<le> of_int h + 1 - D1"
        by (simp add: H_def D1_def e1_def)
      have "(of_int (h + 1) :: rat) = of_int (24 * (q + 1))" using hq1 by (simp only:)
      then have hq1r: "(of_int h :: rat) + 1 = 24 * (of_int q + 1)" by simp
      have x2D: "x2 \<le> of_int q + 1 - D1 / 24"
        using HD hq1r by (simp add: x2_def)
      have "\<bar>x1\<bar> < 2 * 2 powi e1"
        unfolding e1_def using x1n by (rule fexp_bounds(2))
      moreover have "(2::rat) * 2 powi e1 = of_int (2 * 2 ^ nat e1)"
        using e1l by (simp add: power_int_def)
      ultimately have "(of_int h :: rat) < of_int (2 * 2 ^ nat e1)"
        using x1(1) x1(3) by simp
      then have "h < 2 * 2 ^ nat e1" by (simp only: of_int_less_iff)
      then have "h + 1 \<le> 2 * 2 ^ nat e1" by simp
      then have "(of_int (h + 1) :: rat) \<le> of_int (2 * 2 ^ nat e1)"
        by (simp only: of_int_le_iff)
      then have hp: "(of_int h :: rat) + 1 \<le> 2 * 2 powi e1"
        using e1l by (simp add: power_int_def)
      have "(2::rat) powi e1 = 2 powi ((e1 - 4) + 4)" by simp
      also have "\<dots> = 16 * 2 powi (e1 - 4)" by (rule powi_shift(1))
      finally have p4: "(2::rat) powi e1 = 16 * 2 powi (e1 - 4)" .
      define P :: rat where "P = 2 powi (e1 - 4)"
      have P0: "0 < P" by (simp add: P_def)
      have "of_int h + 1 \<le> 32 * P" using hp p4 by (simp add: P_def)
      moreover have "x2 * 24 \<le> of_int h + 1" using x2(3) by simp
      ultimately have "x2 < 2 * P" using P0 by linarith
      then have "\<bar>x2\<bar> < 2 * 2 powi (e1 - 4)"
        using x2(1) by (simp add: P_def)
      moreover have "(2::rat) * 2 powi (e1 - 4) = 2 powi ((e1 - 4) + 1)"
        by (simp only: powi_shift(2))
      ultimately have "\<bar>x2\<bar> < 2 powi (e1 - 3)" by simp
      with False have "fexp x2 < e1 - 3" by (rule fexp_less)
      then have "fexp x2 - 52 \<le> (e1 - 52) - 4" by simp
      then have "(2::rat) powi (fexp x2 - 52) \<le> 2 powi ((e1 - 52) - 4)" by (rule powi_mono)
      moreover have "(2::rat) powi (e1 - 52) = 16 * 2 powi ((e1 - 52) - 4)"
        using powi_shift(1) [of "(e1 - 52) - 4"] by simp
      ultimately have "(2::rat) powi (fexp x2 - 52) \<le> D1 / 16"
        by (simp add: D1_def)
      then have "(2::rat) powi (fexp x2 - 52) / 2 < D1 / 24" using D1 by simp
      with x2D show ?thesis by linarith
    qed
    with False have "round_float64 x2 \<le> of_int q + 1 - 2 powi (fexp x2 - 52)"
      using grid by (rule rd_lt_grid)
    moreover have "0 < (2::rat) powi (fexp x2 - 52)" by simp
    ultimately have "round_float64 x2 < of_int q + 1" by linarith
    then show ?thesis by (simp only: Q_def)
  qed
  have "\<lfloor>Q\<rfloor> = q" using Ql Qu by (intro floor_unique) simp_all
  then show ?thesis
    by (simp add: Q_def x2_def H_def x1_def q_def)
qed

lemma days_from_hours_bound:
  assumes h0: "0 \<le> h" and h22: "h < 2 ^ 22"
    and f0: "0 \<le> f" and f1: "f \<le> 1 - 1 / 2 ^ 42 - 1 / 2 ^ 50"
  shows "\<lfloor>round_float64 (round_float64 (of_int h + f) / 24)\<rfloor> = h div 24 \<or>
         \<lfloor>round_float64 (round_float64 (of_int h + f) / 24)\<rfloor> = h div 24 + 1"
proof -
  define x1 :: rat where "x1 = of_int h + f"
  define H where "H = round_float64 x1"
  define x2 where "x2 = H / 24"
  define Q where "Q = round_float64 x2"
  define q where "q = h div 24"
  have "(of_int 0 :: rat) \<le> of_int h" "(of_int h :: rat) < of_int (2 ^ 22)"
    using h0 h22 by (simp_all only: of_int_le_iff of_int_less_iff)
  then have hr: "(0::rat) \<le> of_int h" "(of_int h :: rat) < 2 ^ 22"
    by simp_all
  have x1: "of_int h \<le> x1" "x1 < of_int h + 1" "0 \<le> x1"
    using f0 f1 hr by (simp_all add: x1_def)
  have x1b: "\<bar>x1\<bar> < 2 powi 53" using x1 hr by simp
  have Hl: "of_int h \<le> H" unfolding H_def using x1b x1(1) by (rule rd_ge_int)
  have "x1 \<le> of_int (h + 1)" using x1(2) by simp
  with x1b have "H \<le> of_int (h + 1)" unfolding H_def by (rule rd_le_int)
  then have Hu: "H \<le> of_int h + 1" by simp
  have x2: "0 \<le> x2" "of_int h / 24 \<le> x2" "x2 \<le> (of_int h + 1) / 24"
    using Hl Hu hr by (simp_all add: x2_def)
  have x2b: "\<bar>x2\<bar> < 2 powi 22" using x2 hr by simp
  then have x2b': "\<bar>x2\<bar> < 2 powi 53" by simp
  have md: "24 * q + h mod 24 = h" "0 \<le> h mod 24" "h mod 24 < 24"
    unfolding q_def by simp_all
  have "24 * q \<le> h" using md by linarith
  then have "(of_int (24 * q) :: rat) \<le> of_int h" by (simp only: of_int_le_iff)
  then have qh: "of_int q \<le> (of_int h :: rat) / 24" by simp
  have Ql: "of_int q \<le> Q"
    unfolding Q_def using x2b' by (rule rd_ge_int) (use qh x2 in linarith)
  define r where "r = h mod 24"
  have "24 * q + r = h" "r < 24" using md by (simp_all add: r_def)
  then have "h + 1 \<le> 24 * q + 24" by linarith
  then have "(of_int (h + 1) :: rat) \<le> of_int (24 * q + 24)" by (simp only: of_int_le_iff)
  then have "x2 \<le> of_int (q + 1)" using x2(3) by simp
  with x2b' have "Q \<le> of_int (q + 1)" unfolding Q_def by (rule rd_le_int)
  then have Qu: "Q < of_int (q + 2)" by simp
  have "q \<le> \<lfloor>Q\<rfloor>" using Ql by (simp only: le_floor_iff)
  moreover have "\<lfloor>Q\<rfloor> < q + 2" using Qu by (simp only: floor_less_iff)
  ultimately have "\<lfloor>Q\<rfloor> = q \<or> \<lfloor>Q\<rfloor> = q + 1" by linarith
  then show ?thesis
    by (simp only: Q_def x2_def H_def x1_def q_def)
qed

lemma days_nonneg:
  assumes "0 \<le> d" and "d \<le> 2 ^ 63"
  shows "d div Hour < 4096 \<or> (d div Hour) mod 24 \<noteq> 23 \<Longrightarrow>
           int_of_float64 (fdiv (Hours d) 24) = (d div Hour) div 24"
    and "int_of_float64 (fdiv (Hours d) 24) = (d div Hour) div 24 \<or>
         int_of_float64 (fdiv (Hours d) 24) = (d div Hour) div 24 + 1"
proof -
  note hp = hour_parts [OF assms]
  note fb = fraction_bounds [OF hp(3) hp(4)]
  have "0 \<le> Hours d / 24" using Hours_nonneg [OF assms(1)] by simp
  then have "0 \<le> fdiv (Hours d) 24" unfolding fdiv_def by (rule round_float64_nonneg)
  then have fl: "int_of_float64 (fdiv (Hours d) 24) = \<lfloor>fdiv (Hours d) 24\<rfloor>"
    by (rule int_of_float64_nonneg)
  have form: "fdiv (Hours d) 24 =
      round_float64 (round_float64 (of_int (d div Hour) +
        fdiv (float64_of_int (d mod Hour)) 3600000000000) / 24)"
    unfolding fdiv_def [of "Hours d"] by (simp only: Hours_nonneg_form [OF assms])
  have eq: "int_of_float64 (fdiv (Hours d) 24) =
      \<lfloor>round_float64 (round_float64 (of_int (d div Hour) +
        fdiv (float64_of_int (d mod Hour)) 3600000000000) / 24)\<rfloor>"
    using fl by (simp only: form)
  show "int_of_float64 (fdiv (Hours d) 24) = (d div Hour) div 24"
    if "d div Hour < 4096 \<or> (d div Hour) mod 24 \<noteq> 23"
    unfolding eq using hp(1) hp(2) fb that by (rule days_from_hours)
  show "int_of_float64 (fdiv (Hours d) 24) = (d div Hour) div 24 \<or>
        int_of_float64 (fdiv (Hours d) 24) = (d div Hour) div 24 + 1"
    unfolding eq using hp(1) hp(2) fb by (rule days_from_hours_bound)
qed

lemma tdiv_minus: "tdiv (- a) b = - tdiv a b"
  by (simp add: tdiv_def)

lemma tmod_minus: "tmod (- a) b = - tmod a b"
  by (simp add: tmod_def tdiv_minus)

lemma fdiv_minus: "fdiv (- x) y = - fdiv x y"
  by (simp add: fdiv_def round_float64_minus)

lemma Hours_minus: "Hours (- d) = - Hours d"
proof -
  have "round_float64 (- a + - b) = - round_float64 (a + b)" for a b
    using round_float64_minus [of "a + b"] by simp
  then show ?thesis
    by (simp only: Hours_def Let_def tdiv_minus tmod_minus fadd_def float64_of_int_def
        of_int_minus round_float64_minus fdiv_minus)
qed

lemma int_of_float64_minus: "int_of_float64 (- x) = - int_of_float64 x"
  by (cases "x < 0"; cases "x = 0") (simp_all add: int_of_float64_def)

lemma int_of_float64_nonpos: "x \<le> 0 \<Longrightarrow> int_of_float64 x \<le> 0"
  by (cases "x = 0") (simp_all add: int_of_float64_def)

lemma days_sign:
  "0 \<le> d \<Longrightarrow> 0 \<le> int_of_float64 (fdiv (Hours d) 24)"
  "d \<le> 0 \<Longrightarrow> int_of_float64 (fdiv (Hours d) 24) \<le> 0"
proof -
  show "0 \<le> int_of_float64 (fdiv (Hours d) 24)" if "0 \<le> d"
  proof -
    have "0 \<le> Hours d / 24" using Hours_nonneg [OF that] by simp
    then have "0 \<le> fdiv (Hours d) 24" unfolding fdiv_def by (rule round_float64_nonneg)
    then show ?thesis by (simp add: int_of_float64_nonneg)
  qed
  show "int_of_float64 (fdiv (Hours d) 24) \<le> 0" if "d \<le> 0"
  proof -
    have "0 \<le> Hours (- d)" using that by (intro Hours_nonneg) simp
    then have "Hours d / 24 \<le> 0" by (simp add: Hours_minus)
    then have "fdiv (Hours d) 24 \<le> 0" unfolding fdiv_def by (rule round_float64_nonpos)
    then show ?thesis by (rule int_of_float64_nonpos)
  qed
qed

lemma days_general:
  assumes "- (2 ^ 63) \<le> d" and "d \<le> 2 ^ 63"
  shows "\<bar>d\<bar> div Hour < 4096 \<or> (\<bar>d\<bar> div Hour) mod 24 \<noteq> 23 \<Longrightarrow>
           int_of_float64 (fdiv (Hours d) 24) = tdiv (tdiv d Hour) 24"
    and "int_of_float64 (fdiv (Hours d) 24) = tdiv (tdiv d Hour) 24 \<or>
         int_of_float64 (fdiv (Hours d) 24) = tdiv (tdiv d Hour) 24 + sgn d"
proof -
  define e where "e = \<bar>d\<bar>"
  have e: "0 \<le> e" "e \<le> 2 ^ 63" using assms by (simp_all add: e_def)
  have k: "0 \<le> e div Hour" using e(1) by (simp add: Hour_def pos_imp_zdiv_nonneg_iff)
  have te: "tdiv (tdiv e Hour) 24 = (e div Hour) div 24"
    using e(1) k by (simp add: tdiv_nonneg Hour_def)
  have both: "int_of_float64 (fdiv (Hours d) 24) = sgn d * int_of_float64 (fdiv (Hours e) 24) \<and>
      tdiv (tdiv d Hour) 24 = sgn d * ((e div Hour) div 24)"
  proof (cases "0 \<le> d")
    case True
    then have de: "e = d" by (simp add: e_def)
    show ?thesis
    proof (cases "d = 0")
      case True
      then show ?thesis
        by (simp add: de tdiv_def Hours_def fadd_def fdiv_def float64_of_int_def tmod_def
            round_float64_def int_of_float64_def)
    next
      case False
      with \<open>0 \<le> d\<close> have "sgn d = 1" by simp
      then show ?thesis using te by (simp add: de)
    qed
  next
    case False
    then have de: "d = - e" and s: "sgn d = - 1" by (simp_all add: e_def)
    have "int_of_float64 (fdiv (Hours d) 24) = - int_of_float64 (fdiv (Hours e) 24)"
      by (simp only: de Hours_minus fdiv_minus int_of_float64_minus)
    moreover have "tdiv (tdiv d Hour) 24 = - ((e div Hour) div 24)"
      using te by (simp only: de tdiv_minus)
    ultimately show ?thesis by (simp add: s)
  qed
  note dn = days_nonneg [OF e]
  have first: "int_of_float64 (fdiv (Hours d) 24) = tdiv (tdiv d Hour) 24"
    if "\<bar>d\<bar> div Hour < 4096 \<or> (\<bar>d\<bar> div Hour) mod 24 \<noteq> 23"
    using both dn(1) that by (simp add: e_def)
  show "int_of_float64 (fdiv (Hours d) 24) = tdiv (tdiv d Hour) 24"
    if "\<bar>d\<bar> div Hour < 4096 \<or> (\<bar>d\<bar> div Hour) mod 24 \<noteq> 23"
    using that by (rule first)
  show "int_of_float64 (fdiv (Hours d) 24) = tdiv (tdiv d Hour) 24 \<or>
        int_of_float64 (fdiv (Hours d) 24) = tdiv (tdiv d Hour) 24 + sgn d"
  proof (cases "d = 0")
    case True
    then have "\<bar>d\<bar> div Hour < 4096 \<or> (\<bar>d\<bar> div Hour) mod 24 \<noteq> 23" by simp
    then have "int_of_float64 (fdiv (Hours d) 24) = tdiv (tdiv d Hour) 24" by (rule first)
    then show ?thesis by (rule disjI1)
  next
    case False
    then have "sgn d * sgn d = 1" by (simp add: sgn_if)
    then have "sgn d * (k + 1) = sgn d * k + sgn d" for k
      by (simp add: algebra_simps)
    then show ?thesis using both dn(2) by auto
  qed
qed

lemma Sub_range: "- (2 ^ 63) \<le> Sub t u" "Sub t u \<le> 2 ^ 63"
  by (simp_all add: Sub_def Let_def minDuration_def maxDuration_def)

lemma Sub_sign: "(Sub t u < 0) = (t < u)"
  by (simp add: Sub_def Let_def minDuration_def maxDuration_def)

lemma Sub_exact:
  "minDuration \<le> t - u \<Longrightarrow> t - u \<le> maxDuration \<Longrightarrow> Sub t u = t - u"
  by (simp add: Sub_def Let_def)

lemma ParseCertificate_certInfo:
  assumes "ParseCertificate L certPEM = Inr info"
  shows "\<exists>cert. info = certInfo (time_Now L) cert"
  using assms
  by (auto simp: ParseCertificate_def split: option.splits if_splits sum.splits)

subsection \<open>The record of a parsed certificate\<close>

lemma certInfo_expiry:
  "NotAfter (certInfo now cert) = cert_NotAfter cert"
  "IsExpired (certInfo now cert) = (cert_NotAfter cert < now)"
  "DaysUntilExp (certInfo now cert) =
     int_of_float64 (fdiv (Hours (Sub (cert_NotAfter cert) now)) 24)"
  by (simp_all add: certInfo_def After_def)

lemma example_single:
  "ParseCertificate (example_lib now) ''[CERTIFICATE|DER:leaf]'' =
     Inr (certInfo now (example_certificate ''leaf''))"
  by (simp add: ParseCertificate_def example_eval)

lemma example_expiry_time:
  "time_Now (example_lib now) = now"
  "cert_NotAfter (example_certificate name) = 1900000000000000000"
  by (simp_all add: example_lib_def example_certificate_def example_notAfter_def)

lemma rounded_up_days:
  "int_of_float64 (fdiv (Hours (4104 * 3600000000000 - 1)) 24) = 171"
  by code_simp

text \<open>
  C4, as the claim states it, fails. A certificate is parsed one nanosecond less than 4104
  hours (171 days) before its \<open>notAfter\<close>. The whole hours to \<open>notAfter\<close> are 4103, so the
  claim's value is 4103 / 24 = 170, and the exact quotient of the hours by 24 is below
  171 too. \<open>Hours\<close> adds the fraction 3599999999999 / 3600000000000 to 4103 in float64;
  the sum is nearer to 4104 than to the float64 below it, so it is 4104, and the record
  holds 171 days.
\<close>

theorem ParseCertificate_days_rounded_up:
  "map_sum id DaysUntilExp
     (ParseCertificate (example_lib (1900000000000000000 - (4104 * Hour - 1)))
        ''[CERTIFICATE|DER:leaf]'') = Inr 171 \<and>
   tdiv (tdiv (1900000000000000000 - (1900000000000000000 - (4104 * Hour - 1))) Hour) 24 = 170 \<and>
   \<lfloor>(of_int (4104 * Hour - 1) / of_int Hour :: rat) / 24\<rfloor> = 170"
proof -
  have "Sub 1900000000000000000 (1900000000000000000 - (4104 * Hour - 1)) =
      4104 * 3600000000000 - 1"
    by (simp add: Sub_def Let_def minDuration_def maxDuration_def Hour_def)
  then have "map_sum id DaysUntilExp
     (ParseCertificate (example_lib (1900000000000000000 - (4104 * Hour - 1)))
        ''[CERTIFICATE|DER:leaf]'') = Inr 171"
    by (simp only: example_single map_sum.simps certInfo_expiry example_expiry_time
        rounded_up_days)
  moreover have "tdiv (tdiv (1900000000000000000 - (1900000000000000000 - (4104 * Hour - 1)))
      Hour) 24 = 170"
    by (simp add: tdiv_def Hour_def)
  moreover have "\<lfloor>(of_int (4104 * Hour - 1) / of_int Hour :: rat) / 24\<rfloor> = 170"
    unfolding Hour_def by (intro floor_unique) simp_all
  ultimately show ?thesis by (intro conjI)
qed

text \<open>
  C4, amended. When \<open>ParseCertificate\<close> returns a record, \<open>isExpired\<close> holds exactly when the
  instant of parsing is strictly after \<open>notAfter\<close>. With \<open>d\<close> the Duration \<open>notAfter.Sub(now)\<close>,
  which is the distance in nanoseconds when that fits the signed 64-bit range,
  \<open>daysUntilExpiry\<close> is \<open>int(d.Hours() / 24)\<close> in float64 arithmetic. It equals the whole hours
  of \<open>d\<close> divided by 24, both quotients truncated toward zero, whenever the whole hours of
  \<open>|d|\<close> are fewer than 4096 or do not leave the remainder 23 modulo 24; in every case it is
  that value or one further from zero. It is at most zero for an expired certificate and
  at least zero otherwise.
\<close>

theorem ParseCertificate_days_until_expiry:
  assumes "ParseCertificate L certPEM = Inr info"
  shows "(let d = Sub (NotAfter info) (time_Now L);
              hours = \<bar>d\<bar> div Hour;
              days = tdiv (tdiv d Hour) 24
          in IsExpired info = (NotAfter info < time_Now L) \<and>
             (minDuration \<le> NotAfter info - time_Now L \<and>
              NotAfter info - time_Now L \<le> maxDuration \<longrightarrow>
                d = NotAfter info - time_Now L) \<and>
             DaysUntilExp info = int_of_float64 (fdiv (Hours d) 24) \<and>
             (hours < 4096 \<or> hours mod 24 \<noteq> 23 \<longrightarrow> DaysUntilExp info = days) \<and>
             (DaysUntilExp info = days \<or> DaysUntilExp info = days + sgn d) \<and>
             (IsExpired info \<longrightarrow> DaysUntilExp info \<le> 0) \<and>
             (\<not> IsExpired info \<longrightarrow> 0 \<le> DaysUntilExp info))"
proof -
  obtain cert where info: "info = certInfo (time_Now L) cert"
    using ParseCertificate_certInfo [OF assms] by blast
  define d where "d = Sub (cert_NotAfter cert) (time_Now L)"
  note range = Sub_range [of "cert_NotAfter cert" "time_Now L", folded d_def]
  note dg = days_general [OF range]
  have neg: "(d < 0) = (cert_NotAfter cert < time_Now L)"
    unfolding d_def by (rule Sub_sign)
  have a: "IsExpired info = (NotAfter info < time_Now L)"
    by (simp add: info certInfo_expiry)
  have b: "minDuration \<le> NotAfter info - time_Now L \<and>
      NotAfter info - time_Now L \<le> maxDuration \<longrightarrow> d = NotAfter info - time_Now L"
    by (simp add: info certInfo_expiry d_def Sub_exact)
  have c: "DaysUntilExp info = int_of_float64 (fdiv (Hours d) 24)"
    by (simp add: info certInfo_expiry d_def)
  have e: "\<bar>d\<bar> div Hour < 4096 \<or> (\<bar>d\<bar> div Hour) mod 24 \<noteq> 23 \<longrightarrow>
      DaysUntilExp info = tdiv (tdiv d Hour) 24"
    unfolding c using dg(1) by blast
  have f: "DaysUntilExp info = tdiv (tdiv d Hour) 24 \<or>
      DaysUntilExp info = tdiv (tdiv d Hour) 24 + sgn d"
    unfolding c by (rule dg(2))
  have g: "IsExpired info \<longrightarrow> DaysUntilExp info \<le> 0"
  proof
    assume "IsExpired info"
    then have "d < 0" using neg by (simp add: info certInfo_expiry)
    then have "d \<le> 0" by simp
    then show "DaysUntilExp info \<le> 0" unfolding c by (rule days_sign(2))
  qed
  have h: "\<not> IsExpired info \<longrightarrow> 0 \<le> DaysUntilExp info"
  proof
    assume "\<not> IsExpired info"
    then have "\<not> d < 0" using neg by (simp add: info certInfo_expiry)
    then have "0 \<le> d" by simp
    then show "0 \<le> DaysUntilExp info" unfolding c by (rule days_sign(1))
  qed
  have dd: "Sub (NotAfter info) (time_Now L) = d"
    by (simp add: info certInfo_expiry d_def)
  show ?thesis
    unfolding Let_def dd using a b c e f g h by (intro conjI)
qed

theorem ParseCertificate_days_until_expiry_witness:
  "ParseCertificate (example_lib 1800000000000000000) ''[CERTIFICATE|DER:leaf]'' =
     Inr (certInfo 1800000000000000000 (example_certificate ''leaf'')) \<and>
   (\<bar>Sub 1900000000000000000 1800000000000000000\<bar> div Hour) mod 24 \<noteq> 23 \<and>
   \<not> IsExpired (certInfo 1800000000000000000 (example_certificate ''leaf'')) \<and>
   DaysUntilExp (certInfo 1800000000000000000 (example_certificate ''leaf'')) = 1157 \<and>
   ParseCertificate (example_lib 1900360000000000000) ''[CERTIFICATE|DER:leaf]'' =
     Inr (certInfo 1900360000000000000 (example_certificate ''leaf'')) \<and>
   \<bar>Sub 1900000000000000000 1900360000000000000\<bar> div Hour < 4096 \<and>
   IsExpired (certInfo 1900360000000000000 (example_certificate ''leaf'')) \<and>
   DaysUntilExp (certInfo 1900360000000000000 (example_certificate ''leaf'')) = - 4"
proof -
  have s1: "Sub 1900000000000000000 1800000000000000000 = 100000000000000000"
    and s2: "Sub 1900000000000000000 1900360000000000000 = - 360000000000000"
    by (simp_all add: Sub_def Let_def minDuration_def maxDuration_def)
  have t1: "tdiv (tdiv 100000000000000000 Hour) 24 = 1157"
    and t2: "tdiv (tdiv (- 360000000000000) Hour) 24 = - 4"
    by (simp_all add: tdiv_def Hour_def)
  have h1: "(\<bar>100000000000000000 :: int\<bar> div Hour) mod 24 \<noteq> 23"
    and h2: "\<bar>- 360000000000000 :: int\<bar> div Hour < 4096"
    by (simp_all add: Hour_def)
  have first: "ParseCertificate (example_lib 1800000000000000000) ''[CERTIFICATE|DER:leaf]'' =
     Inr (certInfo 1800000000000000000 (example_certificate ''leaf'')) \<and>
   (\<bar>Sub 1900000000000000000 1800000000000000000\<bar> div Hour) mod 24 \<noteq> 23 \<and>
   \<not> IsExpired (certInfo 1800000000000000000 (example_certificate ''leaf'')) \<and>
   DaysUntilExp (certInfo 1800000000000000000 (example_certificate ''leaf'')) = 1157"
    using ParseCertificate_days_until_expiry [OF example_single, of 1800000000000000000] h1
    by (simp add: Let_def example_single example_expiry_time certInfo_expiry(1,2) s1 t1)
  have second: "ParseCertificate (example_lib 1900360000000000000) ''[CERTIFICATE|DER:leaf]'' =
     Inr (certInfo 1900360000000000000 (example_certificate ''leaf'')) \<and>
   \<bar>Sub 1900000000000000000 1900360000000000000\<bar> div Hour < 4096 \<and>
   IsExpired (certInfo 1900360000000000000 (example_certificate ''leaf'')) \<and>
   DaysUntilExp (certInfo 1900360000000000000 (example_certificate ''leaf'')) = - 4"
    using ParseCertificate_days_until_expiry [OF example_single, of 1900360000000000000] h2
    by (simp add: Let_def example_single example_expiry_time certInfo_expiry(1,2) s2 t2)
  from first second show ?thesis by (intro conjI) (elim conjE; assumption)+
qed

end
